theory Spec2Isabelle
  imports Main "HOL-Library.Word"
begin

unbundle bit_operations_syntax

section \<open>netbase: addresses, lookup and SOCKS5 dialing\<close>

text \<open>
  A shallow embedding of netbase.cpp. The build modelled is the one with
  ENABLE_I2PSAM, HAVE_GETADDRINFO_A and HAVE_INET_PTON defined, on an LP64 platform
  (\<open>int\<close> has 32 bits, \<open>long\<close> and \<open>size_t\<close> have 64 bits, \<open>char\<close> is signed). A \<open>std::string\<close> is a \<open>string\<close>, an
  \<open>unsigned char\<close> is a \<open>byte\<close>; every function that writes through a reference
  parameter returns the new value of that parameter.
\<close>

type_synonym byte = "8 word"

subsection \<open>The C library on strings\<close>

text \<open>\<open>std::string::find_last_of(c)\<close>: the index of the last \<open>c\<close>, or \<open>npos\<close> (\<open>None\<close>).\<close>

fun find_last_acc :: "string \<Rightarrow> char \<Rightarrow> nat \<Rightarrow> nat option \<Rightarrow> nat option" where
  "find_last_acc [] c i acc = acc"
| "find_last_acc (x # xs) c i acc = find_last_acc xs c (Suc i) (if x = c then Some i else acc)"

definition find_last_of :: "string \<Rightarrow> char \<Rightarrow> nat option" where
  "find_last_of s c = find_last_acc s c 0 None"

text \<open>
  \<open>find_last_of(c, pos)\<close> searches the indices up to \<open>pos\<close>. The position is a
  \<open>size_t\<close>: \<open>colon - 1\<close> with \<open>colon = 0\<close> wraps to the largest value, which is
  \<open>npos\<close> and searches the whole string. \<open>None\<close> stands for that position.
\<close>

definition size_t_pred :: "nat \<Rightarrow> nat option" where
  "size_t_pred n = (if n = 0 then None else Some (n - 1))"

definition find_last_of_pos :: "string \<Rightarrow> char \<Rightarrow> nat option \<Rightarrow> nat option" where
  "find_last_of_pos s c pos =
     (case pos of None \<Rightarrow> find_last_of s c | Some p \<Rightarrow> find_last_of (take (Suc p) s) c)"

definition isspace :: "char \<Rightarrow> bool" where
  "isspace c = (c = CHR '' '' \<or> c = CHR 0x09 \<or> c = CHR 0x0A \<or> c = CHR 0x0B \<or> c = CHR 0x0C \<or> c = CHR 0x0D)"

definition isdigit :: "char \<Rightarrow> bool" where
  "isdigit c = (48 \<le> (of_char c :: nat) \<and> (of_char c :: nat) \<le> 57)"

definition digit_val :: "char \<Rightarrow> int" where
  "digit_val c = int (of_char c) - 48"

definition decimal_val :: "string \<Rightarrow> int" where
  "decimal_val ds = foldl (\<lambda>a c. 10 * a + digit_val c) 0 ds"

definition LONG_MAX :: int where
  "LONG_MAX = 2 ^ 63 - 1"

definition LONG_MIN :: int where
  "LONG_MIN = - (2 ^ 63)"

definition clamp_long :: "int \<Rightarrow> int" where
  "clamp_long v = (if v > LONG_MAX then LONG_MAX else if v < LONG_MIN then LONG_MIN else v)"

text \<open>
  \<open>strtol(s, &endp, 10)\<close>: white space, an optional sign, decimal digits. The result
  is the value as a \<open>long\<close> (saturated on overflow) and the offset of \<open>endp\<close> in \<open>s\<close>;
  with no digit at all the value is 0 and \<open>endp\<close> is \<open>s\<close> itself.
\<close>

definition strtol :: "string \<Rightarrow> int \<times> nat" where
  "strtol s =
     (let ws = takeWhile isspace s;
          r1 = dropWhile isspace s;
          neg = (r1 \<noteq> [] \<and> hd r1 = CHR ''-'');
          sgn_len = (if r1 \<noteq> [] \<and> (hd r1 = CHR ''-'' \<or> hd r1 = CHR ''+'') then 1 else 0);
          r2 = drop sgn_len r1;
          ds = takeWhile isdigit r2
      in if ds = [] then (0, 0)
         else (clamp_long (if neg then - decimal_val ds else decimal_val ds),
               length ws + sgn_len + length ds))"

text \<open>The conversion of a \<open>long\<close> to a 32-bit \<open>int\<close> keeps the low 32 bits.\<close>

definition long_to_int :: "int \<Rightarrow> int" where
  "long_to_int v = sint (word_of_int v :: 32 word)"

text \<open>
  \<open>*endp == 0\<close> for \<open>endp\<close> at offset \<open>k\<close> of the C string of \<open>s\<close>: the terminator
  after the last character, or a NUL character inside the string.
\<close>

definition at_nul :: "string \<Rightarrow> nat \<Rightarrow> bool" where
  "at_nul s k = (case drop k s of [] \<Rightarrow> True | c # _ \<Rightarrow> c = CHR 0x00)"

subsection \<open>SplitHostPort\<close>

text \<open>The result is \<open>(portOut, hostOut)\<close>; \<open>portOut\<close> comes in as the caller's default.\<close>

definition SplitHostPort :: "string \<Rightarrow> int \<Rightarrow> int \<times> string" where
  "SplitHostPort in0 portOut =
     (let colon = find_last_of in0 CHR '':'';
          fHaveColon = (colon \<noteq> None);
          cpos = (case colon of None \<Rightarrow> 0 | Some i \<Rightarrow> i);
          fBracketed = (fHaveColon \<and> (in0 ! 0 = CHR ''['' \<and> in0 ! (cpos - 1) = CHR '']''));
          fMultiColon = (fHaveColon \<and> find_last_of_pos in0 CHR '':'' (size_t_pred cpos) \<noteq> None);
          (in1, port1) =
            (if fHaveColon \<and> (cpos = 0 \<or> fBracketed \<or> \<not> fMultiColon) then
               (let rest = drop (cpos + 1) in0;
                    (v, endp) = strtol rest;
                    n = long_to_int v
                in if at_nul rest endp \<and> n \<ge> 0
                   then (take cpos in0, if n > 0 \<and> n < 0x10000 then n else portOut)
                   else (in0, portOut))
             else (in0, portOut))
      in if length in1 > 0 \<and> in1 ! 0 = CHR ''['' \<and> in1 ! (length in1 - 1) = CHR '']''
         then (port1, take (length in1 - 2) (drop 1 in1))
         else (port1, in1))"

subsection \<open>The environment of the module\<close>

text \<open>
  The functions below call into parts of the program and of the platform that are not in
  netbase.cpp: the I2P helpers (i2pwrapper), the address manager, the I2P session, the
  configuration, and the resolver of the C library. They are taken as parameters, one
  field each; a property that needs a fact about one of them has it as a hypothesis.
\<close>

datatype address_family = AF_INET | AF_INET6 | AF_OTHER

record addrinfo =
  ai_family :: address_family
  ai_addr :: "byte list"    \<comment> \<open>the address bytes of \<open>ai_addr\<close>: 4 for AF_INET, 16 for AF_INET6\<close>

record env =
  NATIVE_I2P_DESTINATION_SIZE :: nat
  isStringI2pDestination :: "string \<Rightarrow> bool"
  isValidI2pB32 :: "string \<Rightarrow> bool"
  isValidI2pAddress :: "string \<Rightarrow> bool"
  B32AddressFromDestination :: "string \<Rightarrow> string"
  GetI2pBase64Destination :: "string \<Rightarrow> string"   \<comment> \<open>\<open>addrman.GetI2pBase64Destination\<close>\<close>
  namingLookup :: "string \<Rightarrow> string"              \<comment> \<open>\<open>I2PSession::Instance().namingLookup\<close>\<close>
  IsI2PEnabled :: bool
  fNameLookup :: bool
  mydestination :: string   \<comment> \<open>\<open>GetArg("-i2p.mydestination.publickey", "")\<close>\<close>
  inet_pton6 :: "string \<Rightarrow> byte list option"
  getaddrinfo :: "string \<Rightarrow> bool \<Rightarrow> addrinfo list option"
  getnameinfo :: "byte list \<Rightarrow> string option"

text \<open>A \<open>const char *\<close> read as a string ends at its first NUL.\<close>

definition c_str :: "string \<Rightarrow> string" where
  "c_str s = takeWhile (\<lambda>c. c \<noteq> CHR 0x00) s"

definition byte_of_char :: "char \<Rightarrow> byte" where
  "byte_of_char c = of_char c"

definition char_of_byte :: "byte \<Rightarrow> char" where
  "char_of_byte b = char_of (unat b)"

subsection \<open>CNetAddr\<close>

record CNetAddr =
  ip :: "byte list"        \<comment> \<open>\<open>unsigned char ip[16]\<close>, in network byte order\<close>
  i2pDest :: "byte list"   \<comment> \<open>\<open>unsigned char i2pDest[NATIVE_I2P_DESTINATION_SIZE]\<close>\<close>

definition pchIPv4 :: "byte list" where
  "pchIPv4 = [0, 0, 0, 0, 0, 0, 0, 0, 0, 0, 0xff, 0xff]"

definition pchOnionCat :: "byte list" where
  "pchOnionCat = [0xFD, 0x87, 0xD8, 0x7E, 0xEB, 0x43]"

definition pchGarlicCat :: "byte list" where
  "pchGarlicCat = [0xFD, 0x60, 0xDB, 0x4D, 0xDD, 0xB5]"

text \<open>\<open>memcmp(p, q, sizeof(q)) == 0\<close>: the first \<open>sizeof(q)\<close> bytes at \<open>p\<close> are those of \<open>q\<close>.\<close>

definition memcmp_eq :: "byte list \<Rightarrow> byte list \<Rightarrow> bool" where
  "memcmp_eq p q = (take (length q) p = q)"

text \<open>\<open>memcpy(dst, src, n)\<close> for a source of at least \<open>n\<close> bytes.\<close>

definition memcpy :: "byte list \<Rightarrow> byte list \<Rightarrow> nat \<Rightarrow> byte list" where
  "memcpy dst src n = take n src @ drop n dst"

definition Init :: "env \<Rightarrow> CNetAddr" where
  "Init e = \<lparr> ip = [0, 0, 0, 0, 0, 0, 0, 0, 0, 0, 0, 0, 0, 0, 0, 0], i2pDest = replicate (NATIVE_I2P_DESTINATION_SIZE e) 0 \<rparr>"

text \<open>\<open>CNetAddr(const struct in_addr&)\<close> and \<open>CNetAddr(const struct in6_addr&)\<close>.\<close>

definition CNetAddr_in_addr :: "env \<Rightarrow> byte list \<Rightarrow> CNetAddr" where
  "CNetAddr_in_addr e ipv4Addr =
     \<lparr> ip = pchIPv4 @ take 4 ipv4Addr, i2pDest = replicate (NATIVE_I2P_DESTINATION_SIZE e) 0 \<rparr>"

definition CNetAddr_in6_addr :: "env \<Rightarrow> byte list \<Rightarrow> CNetAddr" where
  "CNetAddr_in6_addr e ipv6Addr =
     \<lparr> ip = take 16 ipv6Addr, i2pDest = replicate (NATIVE_I2P_DESTINATION_SIZE e) 0 \<rparr>"

definition GetByte :: "CNetAddr \<Rightarrow> nat \<Rightarrow> byte" where
  "GetByte a n = ip a ! (15 - n)"

definition IsIPv4 :: "CNetAddr \<Rightarrow> bool" where
  "IsIPv4 a = memcmp_eq (ip a) pchIPv4"

definition IsTor :: "CNetAddr \<Rightarrow> bool" where
  "IsTor a = memcmp_eq (ip a) pchOnionCat"

definition IsI2P :: "CNetAddr \<Rightarrow> bool" where
  "IsI2P a = memcmp_eq (ip a) pchGarlicCat"

definition IsIPv6 :: "CNetAddr \<Rightarrow> bool" where
  "IsIPv6 a = (\<not> IsIPv4 a \<and> \<not> IsTor a \<and> \<not> IsI2P a)"

definition IsRFC1918 :: "CNetAddr \<Rightarrow> bool" where
  "IsRFC1918 a = (IsIPv4 a \<and>
     (GetByte a 3 = 10 \<or>
      (GetByte a 3 = 192 \<and> GetByte a 2 = 168) \<or>
      (GetByte a 3 = 172 \<and> (GetByte a 2 \<ge> 16 \<and> GetByte a 2 \<le> 31))))"

definition IsRFC3927 :: "CNetAddr \<Rightarrow> bool" where
  "IsRFC3927 a = (IsIPv4 a \<and> (GetByte a 3 = 169 \<and> GetByte a 2 = 254))"

definition IsRFC3849 :: "CNetAddr \<Rightarrow> bool" where
  "IsRFC3849 a = (GetByte a 15 = 0x20 \<and> GetByte a 14 = 0x01 \<and> GetByte a 13 = 0x0D \<and> GetByte a 12 = 0xB8)"

definition IsRFC3964 :: "CNetAddr \<Rightarrow> bool" where
  "IsRFC3964 a = (GetByte a 15 = 0x20 \<and> GetByte a 14 = 0x02)"

definition IsRFC6052 :: "CNetAddr \<Rightarrow> bool" where
  "IsRFC6052 a = memcmp_eq (ip a) [0, 0x64, 0xFF, 0x9B, 0, 0, 0, 0, 0, 0, 0, 0]"

definition IsRFC4380 :: "CNetAddr \<Rightarrow> bool" where
  "IsRFC4380 a = (GetByte a 15 = 0x20 \<and> GetByte a 14 = 0x01 \<and> GetByte a 13 = 0 \<and> GetByte a 12 = 0)"

definition IsRFC4862 :: "CNetAddr \<Rightarrow> bool" where
  "IsRFC4862 a = memcmp_eq (ip a) [0xFE, 0x80, 0, 0, 0, 0, 0, 0]"

definition IsRFC4193 :: "CNetAddr \<Rightarrow> bool" where
  "IsRFC4193 a = ((GetByte a 15 AND 0xFE) = 0xFC)"

definition IsRFC6145 :: "CNetAddr \<Rightarrow> bool" where
  "IsRFC6145 a = memcmp_eq (ip a) [0, 0, 0, 0, 0, 0, 0, 0, 0xFF, 0xFF, 0, 0]"

definition IsRFC4843 :: "CNetAddr \<Rightarrow> bool" where
  "IsRFC4843 a = (GetByte a 15 = 0x20 \<and> GetByte a 14 = 0x01 \<and> GetByte a 13 = 0x00 \<and> (GetByte a 12 AND 0xF0) = 0x10)"

text \<open>The last four bytes of the destination buffer are \<open>AAAA\<close>.\<close>

definition IsNativeI2P :: "env \<Rightarrow> CNetAddr \<Rightarrow> bool" where
  "IsNativeI2P e a =
     (take 4 (drop (NATIVE_I2P_DESTINATION_SIZE e - 4) (i2pDest a)) = map byte_of_char ''AAAA'')"

definition GetI2pDestination :: "env \<Rightarrow> CNetAddr \<Rightarrow> string" where
  "GetI2pDestination e a =
     (if i2pDest a ! 0 \<noteq> 0 then map char_of_byte (take (NATIVE_I2P_DESTINATION_SIZE e) (i2pDest a)) else [])"

definition ToB32String :: "env \<Rightarrow> CNetAddr \<Rightarrow> string" where
  "ToB32String e a = B32AddressFromDestination e (GetI2pDestination e a)"

definition IsLocal :: "env \<Rightarrow> CNetAddr \<Rightarrow> bool" where
  "IsLocal e a =
     (if IsI2P a then mydestination e = GetI2pDestination e a
      else if IsIPv4 a \<and> (GetByte a 3 = 127 \<or> GetByte a 3 = 0) then True
      else if take 16 (ip a) = [0, 0, 0, 0, 0, 0, 0, 0, 0, 0, 0, 0, 0, 0, 0, 1] then True
      else False)"

definition IsMulticast :: "CNetAddr \<Rightarrow> bool" where
  "IsMulticast a = ((IsIPv4 a \<and> (GetByte a 3 AND 0xF0) = 0xE0) \<or> GetByte a 15 = 0xFF)"

definition IsValid :: "env \<Rightarrow> CNetAddr \<Rightarrow> bool" where
  "IsValid e a =
     (if IsI2P a then IsNativeI2P e a
      else if memcmp_eq (ip a) (drop 3 pchIPv4) then False
      else if take 16 (ip a) = [0, 0, 0, 0, 0, 0, 0, 0, 0, 0, 0, 0, 0, 0, 0, 0] then False
      else if IsRFC3849 a then False
      else if IsIPv4 a \<and> take 4 (drop 12 (ip a)) = [0xFF, 0xFF, 0xFF, 0xFF] then False
      else if IsIPv4 a \<and> take 4 (drop 12 (ip a)) = [0, 0, 0, 0] then False
      else True)"

definition IsRoutable :: "env \<Rightarrow> CNetAddr \<Rightarrow> bool" where
  "IsRoutable e a =
     (IsValid e a \<and>
      \<not> (IsRFC3927 a \<or> IsRFC4862 a \<or> (IsRFC4193 a \<and> \<not> (IsTor a \<or> IsI2P a)) \<or> IsRFC4843 a \<or> IsLocal e a))"

datatype Network = NET_UNROUTABLE | NET_IPV4 | NET_IPV6 | NET_TOR | NET_NATIVE_I2P

definition GetNetwork :: "env \<Rightarrow> CNetAddr \<Rightarrow> Network" where
  "GetNetwork e a =
     (if \<not> IsRoutable e a then NET_UNROUTABLE
      else if IsIPv4 a then NET_IPV4
      else if IsTor a then NET_TOR
      else if IsI2P a then NET_NATIVE_I2P
      else NET_IPV6)"

subsection \<open>Base32\<close>

text \<open>
  Modelled from the spec: \<open>DecodeBase32\<close> and \<open>EncodeBase32\<close> are defined in util.cpp,
  which is not among the sources. The spec names the encoding only (an onion name is
  the base32 text of 10 bytes); the model is base32 with the lower-case alphabet
  \<open>a\<close>..\<open>z\<close>, \<open>2\<close>..\<open>7\<close>, five bits a character, most significant bit first, and
  \<open>=\<close> padding on encoding. Decoding reads characters of the alphabet up to the first
  other character and yields the whole bytes.
\<close>

definition pbase32 :: string where
  "pbase32 = ''abcdefghijklmnopqrstuvwxyz234567''"

fun index_of :: "'a \<Rightarrow> 'a list \<Rightarrow> nat option" where
  "index_of c [] = None"
| "index_of c (x # xs) = (if x = c then Some 0 else map_option Suc (index_of c xs))"

fun bits_of :: "nat \<Rightarrow> nat \<Rightarrow> bool list" where
  "bits_of 0 v = []"
| "bits_of (Suc n) v = bits_of n (v div 2) @ [odd v]"

definition nat_of_bits :: "bool list \<Rightarrow> nat" where
  "nat_of_bits bs = foldl (\<lambda>a b. 2 * a + (if b then 1 else 0)) 0 bs"

fun chunks :: "nat \<Rightarrow> 'a list \<Rightarrow> 'a list list" where
  "chunks n xs = (if n = 0 \<or> xs = [] then [] else take n xs # chunks n (drop n xs))"

declare chunks.simps [simp del]

definition DecodeBase32 :: "string \<Rightarrow> byte list" where
  "DecodeBase32 p =
     (let vals = map (\<lambda>c. the (index_of c pbase32)) (takeWhile (\<lambda>c. index_of c pbase32 \<noteq> None) p);
          bits = concat (map (bits_of 5) vals)
      in map (\<lambda>g. word_of_nat (nat_of_bits g)) (filter (\<lambda>g. length g = 8) (chunks 8 bits)))"

definition base32_padding :: "nat \<Rightarrow> nat" where
  "base32_padding len =
     (if len mod 5 = 1 then 6 else if len mod 5 = 2 then 4 else if len mod 5 = 3 then 3
      else if len mod 5 = 4 then 1 else 0)"

definition EncodeBase32 :: "byte list \<Rightarrow> string" where
  "EncodeBase32 pch =
     (let bits = concat (map (\<lambda>b. bits_of 8 (unat b)) pch)
      in map (\<lambda>g. pbase32 ! nat_of_bits (g @ replicate (5 - length g) False)) (chunks 5 bits)
         @ replicate (base32_padding (length pch)) CHR ''='')"

text \<open>The bits that a text over the alphabet stands for, five a character.\<close>

definition base32_bits :: "string \<Rightarrow> bool list" where
  "base32_bits s = concat (map (bits_of 5) (map (\<lambda>c. the (index_of c pbase32)) s))"

subsection \<open>SetSpecial\<close>

text \<open>Writing \<open>src\<close> into the array \<open>dst\<close> from index \<open>off\<close> on.\<close>

definition store_at :: "byte list \<Rightarrow> nat \<Rightarrow> byte list \<Rightarrow> byte list" where
  "store_at dst off src = take off dst @ src @ drop (off + length src) dst"

text \<open>
  The address built from a base64 destination \<open>addr\<close>: the GarlicCat prefix in \<open>ip\<close>, and
  \<open>NATIVE_I2P_DESTINATION_SIZE\<close> bytes copied from \<open>addr.c_str()\<close>. The copy reads past
  the end of a shorter string; the model then copies the string and its terminator only.
\<close>

definition set_i2p :: "env \<Rightarrow> CNetAddr \<Rightarrow> string \<Rightarrow> CNetAddr" where
  "set_i2p e a addr =
     a \<lparr> ip := store_at (ip a) 0 pchGarlicCat,
         i2pDest := memcpy (i2pDest a) (map byte_of_char (c_str addr) @ [0]) (NATIVE_I2P_DESTINATION_SIZE e) \<rparr>"

definition SetSpecial :: "env \<Rightarrow> CNetAddr \<Rightarrow> string \<Rightarrow> bool \<times> CNetAddr" where
  "SetSpecial e a strName =
     (if isStringI2pDestination e strName then
        (if isValidI2pB32 e strName then
           (let addr0 = GetI2pBase64Destination e strName in
            if IsI2PEnabled e \<and> fNameLookup e then
              (let addr = (if length addr0 = 0 then namingLookup e strName else addr0) in
               if \<not> isValidI2pAddress e addr then (False, a)
               else (True, set_i2p e a addr))
            else (False, a))
         else (True, set_i2p e a strName))
      else if length strName > 6 \<and> drop (length strName - 6) strName = ''.onion'' then
        (let vchAddr = DecodeBase32 (c_str (take (length strName - 6) strName)) in
         if length vchAddr \<noteq> 16 - length pchOnionCat then (False, a)
         else (True, a \<lparr> ip := store_at (store_at (ip a) 0 pchOnionCat) (length pchOnionCat) vchAddr \<rparr>))
      else (False, a))"

subsection \<open>Lookup\<close>

text \<open>
  \<open>inet_pton(AF_INET, s, &addr) > 0\<close> of the C library: four decimal numbers of one to
  three digits, each at most 255 and without a leading zero, separated by dots. The result
  is the four bytes in network order.
\<close>

fun split_on :: "char \<Rightarrow> string \<Rightarrow> string list" where
  "split_on c [] = [[]]"
| "split_on c (x # xs) =
     (if x = c then [] # split_on c xs
      else (case split_on c xs of [] \<Rightarrow> [[x]] | p # ps \<Rightarrow> (x # p) # ps))"

definition octet :: "string \<Rightarrow> byte option" where
  "octet s =
     (if s \<noteq> [] \<and> length s \<le> 3 \<and> list_all isdigit s \<and> (length s = 1 \<or> hd s \<noteq> CHR ''0'')
         \<and> decimal_val s \<le> 255
      then Some (word_of_int (decimal_val s)) else None)"

definition inet_pton4 :: "string \<Rightarrow> byte list option" where
  "inet_pton4 s =
     (let parts = split_on CHR ''.'' s in
      if length parts = 4 \<and> list_all (\<lambda>p. octet p \<noteq> None) parts
      then Some (map (\<lambda>p. the (octet p)) parts) else None)"

text \<open>The calls into the resolver of the C library, in the order they are made.\<close>

datatype resolver_call =
    Call_inet_pton address_family string
  | Call_getaddrinfo string bool

text \<open>The loop over the result list of \<open>getaddrinfo\<close>.\<close>

fun collect_addrs :: "env \<Rightarrow> nat \<Rightarrow> addrinfo list \<Rightarrow> CNetAddr list \<Rightarrow> CNetAddr list" where
  "collect_addrs e nMaxSolutions [] vIP = vIP"
| "collect_addrs e nMaxSolutions (aiTrav # aiNext) vIP =
     (if nMaxSolutions = 0 \<or> length vIP < nMaxSolutions then
        collect_addrs e nMaxSolutions aiNext
          (vIP @ (if ai_family aiTrav = AF_INET then [CNetAddr_in_addr e (ai_addr aiTrav)] else [])
               @ (if ai_family aiTrav = AF_INET6 then [CNetAddr_in6_addr e (ai_addr aiTrav)] else []))
      else vIP)"

text \<open>
  The result is the return value, the vector \<open>vIP\<close> and the resolver calls made. The
  model covers the runs in which the asynchronous resolution ends and the thread is not
  interrupted; \<open>getaddrinfo e name allow\<close> is \<open>None\<close> when the resolution reports an error.
\<close>

definition LookupIntern :: "env \<Rightarrow> string \<Rightarrow> nat \<Rightarrow> bool \<Rightarrow> bool \<times> CNetAddr list \<times> resolver_call list" where
  "LookupIntern e pszName nMaxSolutions fAllowLookup =
     (let strName = c_str pszName;
          (fSpecial, addr) = SetSpecial e (Init e) strName
      in if fSpecial then (True, [addr], [])
         else if isStringI2pDestination e strName then (False, [], [])
         else (case inet_pton4 strName of
             Some ipv4_addr \<Rightarrow> (True, [CNetAddr_in_addr e ipv4_addr], [Call_inet_pton AF_INET strName])
           | None \<Rightarrow>
             (case inet_pton6 e strName of
                Some ipv6_addr \<Rightarrow>
                  (True, [CNetAddr_in6_addr e ipv6_addr],
                   [Call_inet_pton AF_INET strName, Call_inet_pton AF_INET6 strName])
              | None \<Rightarrow>
                (let calls = [Call_inet_pton AF_INET strName, Call_inet_pton AF_INET6 strName,
                              Call_getaddrinfo strName fAllowLookup]
                 in case getaddrinfo e strName fAllowLookup of
                      None \<Rightarrow> (False, [], calls)
                    | Some aiRes \<Rightarrow>
                        (let vIP = collect_addrs e nMaxSolutions aiRes []
                         in (length vIP > 0, vIP, calls))))))"

text \<open>\<open>LookupHost\<close> leaves the caller's vector as it is when the name is empty.\<close>

definition LookupHost :: "env \<Rightarrow> string \<Rightarrow> CNetAddr list \<Rightarrow> nat \<Rightarrow> bool \<Rightarrow> bool \<times> CNetAddr list \<times> resolver_call list" where
  "LookupHost e pszName vIP nMaxSolutions fAllowLookup =
     (let strHost = c_str pszName in
      if strHost = [] then (False, vIP, [])
      else (let strHost1 =
                  (if hd strHost = CHR ''['' \<and> last strHost = CHR '']''
                   then take (length strHost - 2) (drop 1 strHost) else strHost)
            in LookupIntern e strHost1 nMaxSolutions fAllowLookup))"

definition LookupHostNumeric :: "env \<Rightarrow> string \<Rightarrow> CNetAddr list \<Rightarrow> nat \<Rightarrow> bool \<times> CNetAddr list \<times> resolver_call list" where
  "LookupHostNumeric e pszName vIP nMaxSolutions = LookupHost e pszName vIP nMaxSolutions False"

subsection \<open>CService\<close>

record CService =
  net_addr :: CNetAddr     \<comment> \<open>the \<open>CNetAddr\<close> base object\<close>
  svc_port :: "16 word"   \<comment> \<open>\<open>unsigned short port\<close>\<close>

definition CService_default :: "env \<Rightarrow> CService" where
  "CService_default e = \<lparr> net_addr = Init e, svc_port = 0 \<rparr>"

text \<open>\<open>CService(const CNetAddr&, unsigned short)\<close>, called with an \<open>int\<close> port.\<close>

definition CService_addr_port :: "CNetAddr \<Rightarrow> int \<Rightarrow> CService" where
  "CService_addr_port cip portIn = \<lparr> net_addr = cip, svc_port = word_of_int portIn \<rparr>"

definition Lookup :: "env \<Rightarrow> string \<Rightarrow> CService list \<Rightarrow> int \<Rightarrow> bool \<Rightarrow> nat \<Rightarrow> bool \<times> CService list \<times> resolver_call list" where
  "Lookup e pszName vAddr portDefault fAllowLookup nMaxSolutions =
     (if c_str pszName = [] then (False, vAddr, [])
      else (let (port, hostname) = SplitHostPort (c_str pszName) portDefault;
                (fRet, vIP, calls) = LookupIntern e hostname nMaxSolutions fAllowLookup
            in if \<not> fRet then (False, vAddr, calls)
               else (True, map (\<lambda>a. CService_addr_port a port) vIP, calls)))"

text \<open>\<open>Lookup\<close> for one address: the result is the return value and the new \<open>addr\<close>.\<close>

definition Lookup1 :: "env \<Rightarrow> string \<Rightarrow> CService \<Rightarrow> int \<Rightarrow> bool \<Rightarrow> bool \<times> CService" where
  "Lookup1 e pszName addr portDefault fAllowLookup =
     (case Lookup e pszName [] portDefault fAllowLookup 1 of
        (fRet, vService, calls) \<Rightarrow>
          if \<not> fRet then (False, addr)
          else (case vService of [] \<Rightarrow> (True, addr) | s # _ \<Rightarrow> (True, s)))"

definition LookupNumeric :: "env \<Rightarrow> string \<Rightarrow> CService \<Rightarrow> int \<Rightarrow> bool \<times> CService" where
  "LookupNumeric e pszName addr portDefault = Lookup1 e pszName addr portDefault False"

text \<open>\<open>CNetAddr(const std::string &strIp, bool fAllowLookup)\<close>.\<close>

definition CNetAddr_string :: "env \<Rightarrow> string \<Rightarrow> bool \<Rightarrow> CNetAddr" where
  "CNetAddr_string e strIp fAllowLookup =
     (case LookupHost e strIp [] 1 fAllowLookup of
        (fRet, vIP, calls) \<Rightarrow>
          if fRet then (case vIP of [] \<Rightarrow> Init e | a # _ \<Rightarrow> a) else Init e)"

text \<open>\<open>CService(const char *pszIpPort, int portDefault, bool fAllowLookup)\<close>.\<close>

definition CService_string :: "env \<Rightarrow> string \<Rightarrow> int \<Rightarrow> bool \<Rightarrow> CService" where
  "CService_string e pszIpPort portDefault fAllowLookup =
     snd (Lookup1 e pszIpPort (CService_default e) portDefault fAllowLookup)"

subsection \<open>Display strings\<close>

text \<open>\<open>strprintf\<close> with \<open>%u\<close> (base 10) and \<open>%x\<close> (base 16, lower case).\<close>

definition digit_char :: "nat \<Rightarrow> char" where
  "digit_char d = ''0123456789abcdef'' ! d"

function show_nat :: "nat \<Rightarrow> nat \<Rightarrow> string" where
  "show_nat b n = (if b < 2 \<or> n < b then [digit_char n] else show_nat b (n div b) @ [digit_char (n mod b)])"
  by pat_completeness auto
termination
  by (relation "measure (\<lambda>(b, n). n)") auto

text \<open>
  \<open>CService::GetSockAddr\<close> on a buffer of \<open>sizeof(sockaddr_storage)\<close> bytes: the length
  checks pass, and only an IPv6 address whose destination buffer ends like a native I2P
  destination is refused (by \<open>GetIn6Addr\<close>).
\<close>

definition GetSockAddr :: "env \<Rightarrow> CNetAddr \<Rightarrow> bool" where
  "GetSockAddr e a = (if IsIPv4 a then True else if IsIPv6 a then \<not> IsNativeI2P e a else False)"

definition ToStringIP :: "env \<Rightarrow> CNetAddr \<Rightarrow> string" where
  "ToStringIP e a =
     (if IsI2P a then (if IsNativeI2P e a then ToB32String e a else ''???.b32.i2p'')
      else if IsTor a then EncodeBase32 (take 10 (drop 6 (ip a))) @ ''.onion''
      else (case (if GetSockAddr e a then getnameinfo e (if IsIPv4 a then take 4 (drop 12 (ip a)) else take 16 (ip a))
                  else None) of
              Some name \<Rightarrow> name
            | None \<Rightarrow>
                if IsIPv4 a then
                  show_nat 10 (unat (GetByte a 3)) @ ''.'' @ show_nat 10 (unat (GetByte a 2)) @ ''.'' @
                  show_nat 10 (unat (GetByte a 1)) @ ''.'' @ show_nat 10 (unat (GetByte a 0))
                else
                  show_nat 16 (unat (GetByte a 15) * 256 + unat (GetByte a 14)) @ '':'' @
                  show_nat 16 (unat (GetByte a 13) * 256 + unat (GetByte a 12)) @ '':'' @
                  show_nat 16 (unat (GetByte a 11) * 256 + unat (GetByte a 10)) @ '':'' @
                  show_nat 16 (unat (GetByte a 9) * 256 + unat (GetByte a 8)) @ '':'' @
                  show_nat 16 (unat (GetByte a 7) * 256 + unat (GetByte a 6)) @ '':'' @
                  show_nat 16 (unat (GetByte a 5) * 256 + unat (GetByte a 4)) @ '':'' @
                  show_nat 16 (unat (GetByte a 3) * 256 + unat (GetByte a 2)) @ '':'' @
                  show_nat 16 (unat (GetByte a 1) * 256 + unat (GetByte a 0))))"

subsection \<open>GetGroup\<close>

text \<open>
  Modelled from the spec: \<open>enum Network\<close> is declared in netbase.h, which is not among
  the sources. Its values are 0 for \<open>NET_UNROUTABLE\<close> and then 1 to 4 for IPv4, IPv6, Tor
  and I2P, the order of the spec's family list; the comment in \<open>GetGroup\<close> gives 1 for
  IPv4.
\<close>

definition Network_value :: "Network \<Rightarrow> byte" where
  "Network_value n =
     (case n of NET_UNROUTABLE \<Rightarrow> 0 | NET_IPV4 \<Rightarrow> 1 | NET_IPV6 \<Rightarrow> 2 | NET_TOR \<Rightarrow> 3 | NET_NATIVE_I2P \<Rightarrow> 4)"

text \<open>The loop of \<open>GetGroup\<close> that pushes the first \<open>nBits\<close> bits from byte \<open>nStartByte\<close> on.\<close>

function group_bits :: "CNetAddr \<Rightarrow> nat \<Rightarrow> nat \<Rightarrow> byte list" where
  "group_bits a nStartByte nBits =
     (if nBits \<ge> 8 then GetByte a (15 - nStartByte) # group_bits a (nStartByte + 1) (nBits - 8)
      else if nBits > 0 then [GetByte a (15 - nStartByte) OR (push_bit nBits 1 - 1)]
      else [])"
  by pat_completeness auto
termination
  by (relation "measure (\<lambda>(a, s, n). n)") auto

text \<open>
  The chain of tests works on \<open>(nClass, nStartByte, nBits)\<close>, which start as
  \<open>(NET_IPV6, 0, 16)\<close>; the Teredo branch returns its vector at once (\<open>Inl\<close>).
\<close>

definition GetGroup :: "env \<Rightarrow> CNetAddr \<Rightarrow> byte list" where
  "GetGroup e a =
     (if IsI2P a then
        Network_value NET_NATIVE_I2P # take (NATIVE_I2P_DESTINATION_SIZE e) (i2pDest a)
      else
        (let (nClass1, nBits1) = (if IsLocal e a then (255, 0) else (Network_value NET_IPV6, 16));
             r = (if \<not> IsRoutable e a then Inr (Network_value NET_UNROUTABLE, 0, 0)
                  else if IsIPv4 a \<or> IsRFC6145 a \<or> IsRFC6052 a then Inr (Network_value NET_IPV4, 12, nBits1)
                  else if IsRFC3964 a then Inr (Network_value NET_IPV4, 2, nBits1)
                  else if IsRFC4380 a then
                    Inl [Network_value NET_IPV4, GetByte a 3 XOR 0xFF, GetByte a 2 XOR 0xFF]
                  else if IsTor a then Inr (Network_value NET_TOR, 6, 4)
                  else if GetByte a 15 = 0x20 \<and> GetByte a 14 = 0x01 \<and> GetByte a 13 = 0x04 \<and> GetByte a 12 = 0x70
                    then Inr (nClass1, 0, 36)
                  else Inr (nClass1, 0, 32))
         in case r of
              Inl vchRet \<Rightarrow> vchRet
            | Inr (nClass, nStartByte, nBits) \<Rightarrow> nClass # group_bits a nStartByte nBits))"

text \<open>
  The addresses that reach the last branch of \<open>GetGroup\<close> ("the rest of the IPv6
  network"): IPv6, routable, and none of the cases tested before it. The array \<open>ip\<close>
  has its 16 bytes.
\<close>

definition other_IPv6 :: "env \<Rightarrow> CNetAddr \<Rightarrow> bool" where
  "other_IPv6 e a =
     (length (ip a) = 16 \<and> IsIPv6 a \<and> IsRoutable e a \<and> \<not> IsRFC6145 a \<and> \<not> IsRFC6052 a
      \<and> \<not> IsRFC3964 a \<and> \<not> IsRFC4380 a
      \<and> \<not> (GetByte a 15 = 0x20 \<and> GetByte a 14 = 0x01 \<and> GetByte a 13 = 0x04 \<and> GetByte a 12 = 0x70))"

subsection \<open>GetReachabilityFrom\<close>

text \<open>
  \<open>GetExtNetwork\<close> returns an \<open>int\<close>: a value of \<open>enum Network\<close>, or one of the two
  private extensions \<open>NET_UNKNOWN\<close> and \<open>NET_TEREDO\<close>. A null pointer is \<open>None\<close>.
\<close>

datatype ExtNetwork = Net Network | NET_UNKNOWN | NET_TEREDO

definition GetExtNetwork :: "env \<Rightarrow> CNetAddr option \<Rightarrow> ExtNetwork" where
  "GetExtNetwork e addr =
     (case addr of
        None \<Rightarrow> NET_UNKNOWN
      | Some a \<Rightarrow> if IsRFC4380 a then NET_TEREDO else Net (GetNetwork e a))"

datatype Reachability =
    REACH_UNREACHABLE
  | REACH_DEFAULT
  | REACH_TEREDO
  | REACH_IPV6_WEAK
  | REACH_IPV4
  | REACH_IPV6_STRONG
  | REACH_PRIVATE

definition GetReachabilityFrom :: "env \<Rightarrow> CNetAddr \<Rightarrow> CNetAddr option \<Rightarrow> Reachability" where
  "GetReachabilityFrom e a paddrPartner =
     (if \<not> IsRoutable e a then REACH_UNREACHABLE
      else
        (let ourNet = GetExtNetwork e (Some a);
             theirNet = GetExtNetwork e paddrPartner;
             fTunnel = (IsRFC3964 a \<or> IsRFC6052 a \<or> IsRFC6145 a)
         in case theirNet of
              Net NET_IPV4 \<Rightarrow>
                (case ourNet of
                   Net NET_IPV4 \<Rightarrow> REACH_IPV4
                 | _ \<Rightarrow> REACH_DEFAULT)
            | Net NET_IPV6 \<Rightarrow>
                (case ourNet of
                   NET_TEREDO \<Rightarrow> REACH_TEREDO
                 | Net NET_IPV4 \<Rightarrow> REACH_IPV4
                 | Net NET_IPV6 \<Rightarrow> if fTunnel then REACH_IPV6_WEAK else REACH_IPV6_STRONG
                 | _ \<Rightarrow> REACH_DEFAULT)
            | Net NET_NATIVE_I2P \<Rightarrow>
                (case ourNet of
                   Net NET_NATIVE_I2P \<Rightarrow> REACH_PRIVATE
                 | _ \<Rightarrow> REACH_UNREACHABLE)
            | Net NET_TOR \<Rightarrow>
                (case ourNet of
                   Net NET_IPV4 \<Rightarrow> REACH_IPV4
                 | Net NET_TOR \<Rightarrow> REACH_PRIVATE
                 | _ \<Rightarrow> REACH_DEFAULT)
            | NET_TEREDO \<Rightarrow>
                (case ourNet of
                   NET_TEREDO \<Rightarrow> REACH_TEREDO
                 | Net NET_IPV6 \<Rightarrow> REACH_IPV6_WEAK
                 | Net NET_IPV4 \<Rightarrow> REACH_IPV4
                 | _ \<Rightarrow> REACH_DEFAULT)
            | _ \<Rightarrow>
                (case ourNet of
                   NET_TEREDO \<Rightarrow> REACH_TEREDO
                 | Net NET_IPV6 \<Rightarrow> REACH_IPV6_WEAK
                 | Net NET_IPV4 \<Rightarrow> REACH_IPV4
                 | Net NET_TOR \<Rightarrow> REACH_PRIVATE
                 | Net NET_NATIVE_I2P \<Rightarrow> REACH_PRIVATE
                 | _ \<Rightarrow> REACH_DEFAULT)))"

text \<open>
  The pairs \<open>(ourNet, theirNet)\<close> that have a \<open>case\<close> label of their own in the inner
  switches of \<open>GetReachabilityFrom\<close>; every other pair takes a \<open>default\<close> label.
\<close>

definition has_case_label :: "ExtNetwork \<Rightarrow> ExtNetwork \<Rightarrow> bool" where
  "has_case_label ourNet theirNet =
     (case theirNet of
        Net NET_IPV4 \<Rightarrow> ourNet = Net NET_IPV4
      | Net NET_IPV6 \<Rightarrow> ourNet = NET_TEREDO \<or> ourNet = Net NET_IPV4 \<or> ourNet = Net NET_IPV6
      | Net NET_NATIVE_I2P \<Rightarrow> ourNet = Net NET_NATIVE_I2P
      | Net NET_TOR \<Rightarrow> ourNet = Net NET_IPV4 \<or> ourNet = Net NET_TOR
      | NET_TEREDO \<Rightarrow> ourNet = NET_TEREDO \<or> ourNet = Net NET_IPV6 \<or> ourNet = Net NET_IPV4
      | _ \<Rightarrow> ourNet = NET_TEREDO \<or> ourNet = Net NET_IPV6 \<or> ourNet = Net NET_IPV4
               \<or> ourNet = Net NET_TOR \<or> ourNet = Net NET_NATIVE_I2P)"

subsection \<open>Sockets\<close>

text \<open>
  A connected socket, with the behaviour of its peer and of the kernel written out: \<open>rx\<close>
  are the bytes the peer still delivers; \<open>rx_script\<close> says for each coming \<open>recv\<close>
  how many of them have arrived by then (\<open>None\<close>: the call fails with -1), and once the
  script is used up every byte has arrived; \<open>tx_script\<close> says for each coming \<open>send\<close>
  how many bytes the kernel takes (\<open>None\<close>: the call fails with -1), and once it is used
  up every byte is taken. \<open>sent\<close> are the bytes written so far. A call that blocks for ever
  is not modelled: a \<open>recv\<close> that finds no byte returns 0, as for a peer that has shut down.
\<close>

record socket =
  rx :: "byte list"
  rx_script :: "nat option list"
  tx_script :: "nat option list"
  sent :: "byte list"
  closed :: bool

definition recv :: "socket \<Rightarrow> nat \<Rightarrow> int \<times> byte list \<times> socket" where
  "recv s len =
     (case rx_script s of
        [] \<Rightarrow> (let k = min len (length (rx s)) in (int k, take k (rx s), s \<lparr> rx := drop k (rx s) \<rparr>))
      | None # rest \<Rightarrow> (- 1, [], s \<lparr> rx_script := rest \<rparr>)
      | Some avail # rest \<Rightarrow>
          (let k = min len (min avail (length (rx s)))
           in (int k, take k (rx s), s \<lparr> rx := drop k (rx s), rx_script := rest \<rparr>)))"

definition send :: "socket \<Rightarrow> byte list \<Rightarrow> int \<times> socket" where
  "send s buf =
     (case tx_script s of
        [] \<Rightarrow> (int (length buf), s \<lparr> sent := sent s @ buf \<rparr>)
      | None # rest \<Rightarrow> (- 1, s \<lparr> tx_script := rest \<rparr>)
      | Some k # rest \<Rightarrow>
          (let n = min k (length buf)
           in (int n, s \<lparr> sent := sent s @ take n buf, tx_script := rest \<rparr>)))"

definition closesocket :: "socket \<Rightarrow> socket" where
  "closesocket s = s \<lparr> closed := True \<rparr>"

subsection \<open>Socks5\<close>

text \<open>
  The result is \<open>Inl msg\<close> for \<open>return error(msg)\<close> (which logs \<open>msg\<close> and returns false)
  and \<open>Inr ()\<close> for \<open>return true\<close>, with the socket as the call leaves it.
\<close>

definition socks5_reply_error :: "byte \<Rightarrow> string" where
  "socks5_reply_error c =
     (if c = 0x01 then ''Proxy error: general failure''
      else if c = 0x02 then ''Proxy error: connection not allowed''
      else if c = 0x03 then ''Proxy error: network unreachable''
      else if c = 0x04 then ''Proxy error: host unreachable''
      else if c = 0x05 then ''Proxy error: connection refused''
      else if c = 0x06 then ''Proxy error: TTL expired''
      else if c = 0x07 then ''Proxy error: protocol error''
      else if c = 0x08 then ''Proxy error: address type not supported''
      else ''Proxy error: unknown'')"

text \<open>
  The bound address of the reply and its port, after the four header bytes. The length
  byte of a domain name is read as a \<open>char\<close>, which is signed here: \<open>nRecv\<close> is negative
  for a byte above 127, and the length handed to \<open>recv\<close> is then its value as a
  \<open>size_t\<close>. What such a call writes past the 256 bytes of \<open>pchRet3\<close> is not modelled.
\<close>

definition Socks5_bound :: "byte \<Rightarrow> socket \<Rightarrow> (string + unit) \<times> socket" where
  "Socks5_bound atyp s4 =
     (let r =
        (if atyp = 0x01 then (let (n, buf, s) = recv s4 4 in Inr (n \<noteq> 4, s))
         else if atyp = 0x04 then (let (n, buf, s) = recv s4 16 in Inr (n \<noteq> 16, s))
         else if atyp = 0x03 then
           (let (n, buf, s) = recv s4 1 in
            if n \<noteq> 1 then Inl (''Error reading from proxy'', closesocket s)
            else (let nRecv = sint (buf ! 0);
                      (m, buf2, s') = recv s (nat (nRecv mod 2 ^ 64))
                  in Inr (m \<noteq> nRecv, s')))
         else Inl (''Error: malformed proxy response'', closesocket s4))
      in case r of
           Inl (msg, s) \<Rightarrow> (Inl msg, s)
         | Inr (ret, s5) \<Rightarrow>
             if ret then (Inl ''Error reading from proxy'', closesocket s5)
             else (let (n, buf, s6) = recv s5 2 in
                   if n \<noteq> 2 then (Inl ''Error reading from proxy'', closesocket s6)
                   else (Inr (), s6)))"

text \<open>The CONNECT request \<open>strSocks5\<close>: the header, the length byte, the name, the port.\<close>

definition Socks5_request :: "string \<Rightarrow> int \<Rightarrow> byte list" where
  "Socks5_request strDest port =
     [5, 1, 0, 3] @ [word_of_nat (min (length strDest) 255)] @ map byte_of_char strDest
       @ [word_of_int (drop_bit 8 port), word_of_int port]"

definition Socks5 :: "string \<Rightarrow> int \<Rightarrow> socket \<Rightarrow> (string + unit) \<times> socket" where
  "Socks5 strDest port hSocket =
     (if length strDest > 255 then (Inl ''Hostname too long'', closesocket hSocket)
      else
        (let (ret1, s1) = send hSocket [5, 1, 0] in
         if ret1 \<noteq> 3 then (Inl ''Error sending to proxy'', closesocket s1)
         else
           (let (n1, pchRet1, s2) = recv s1 2 in
            if n1 \<noteq> 2 then (Inl ''Error reading proxy response'', closesocket s2)
            else if pchRet1 ! 0 \<noteq> 0x05 \<or> pchRet1 ! 1 \<noteq> 0x00 then
              (Inl ''Proxy failed to initialize'', closesocket s2)
            else
              (let strSocks5 = Socks5_request strDest port;
                   (ret2, s3) = send s2 strSocks5
               in if ret2 \<noteq> int (length strSocks5) then (Inl ''Error sending to proxy'', closesocket s3)
                  else
                    (let (n2, pchRet2, s4) = recv s3 4 in
                     if n2 \<noteq> 4 then (Inl ''Error reading proxy response'', closesocket s4)
                     else if pchRet2 ! 0 \<noteq> 0x05 then
                       (Inl ''Proxy failed to accept request'', closesocket s4)
                     else if pchRet2 ! 1 \<noteq> 0x00 then
                       (Inl (socks5_reply_error (pchRet2 ! 1)), closesocket s4)
                     else if pchRet2 ! 2 \<noteq> 0x00 then
                       (Inl ''Error: malformed proxy response'', closesocket s4)
                     else Socks5_bound (pchRet2 ! 3) s4)))))"

subsection \<open>The proxy settings\<close>

text \<open>The statics \<open>proxyInfo[NET_MAX]\<close> and \<open>nameProxy\<close>; \<open>proxyType\<close> is a \<open>CService\<close>.\<close>

record proxies =
  proxyInfo :: "Network \<Rightarrow> CService"
  nameProxy :: CService

definition SetProxy :: "env \<Rightarrow> proxies \<Rightarrow> Network \<Rightarrow> CService \<Rightarrow> bool \<times> proxies" where
  "SetProxy e px net addrProxy =
     (if \<not> IsValid e (net_addr addrProxy) then (False, px)
      else (True, px \<lparr> proxyInfo := (proxyInfo px) (net := addrProxy) \<rparr>))"

definition GetProxy :: "env \<Rightarrow> proxies \<Rightarrow> Network \<Rightarrow> CService option" where
  "GetProxy e px net =
     (if \<not> IsValid e (net_addr (proxyInfo px net)) then None else Some (proxyInfo px net))"

definition SetNameProxy :: "env \<Rightarrow> proxies \<Rightarrow> CService \<Rightarrow> bool \<times> proxies" where
  "SetNameProxy e px addrProxy =
     (if \<not> IsValid e (net_addr addrProxy) then (False, px)
      else (True, px \<lparr> nameProxy := addrProxy \<rparr>))"

text \<open>The result is the return value and the new \<open>nameProxyOut\<close>.\<close>

definition GetNameProxy :: "env \<Rightarrow> proxies \<Rightarrow> CService \<Rightarrow> bool \<times> CService" where
  "GetNameProxy e px nameProxyOut =
     (if \<not> IsValid e (net_addr (nameProxy px)) then (False, nameProxyOut) else (True, nameProxy px))"

definition HaveNameProxy :: "env \<Rightarrow> proxies \<Rightarrow> bool" where
  "HaveNameProxy e px = IsValid e (net_addr (nameProxy px))"

subsection \<open>Connecting\<close>

text \<open>
  What the operating system answers to the calls of one \<open>ConnectSocketDirectly\<close>:
  \<open>socket\<close>, the two changes of the blocking mode, \<open>connect\<close> (an error other than
  in-progress, would-block or invalid is \<open>Connect_error\<close>), \<open>select\<close>, \<open>getsockopt\<close>
  and the pending error it reads, and the socket that results.
\<close>

datatype connect_result = Connect_ok | Connect_in_progress | Connect_error

record connect_script =
  socket_ok :: bool
  nonblock_ok :: bool
  connect_res :: connect_result
  select_res :: int
  getsockopt_ok :: bool
  so_error :: int
  block_ok :: bool
  stream :: socket

text \<open>
  The network: the script of a connection attempt, by endpoint and timeout; the socket
  \<open>I2PSession::Instance().connect\<close> returns for a destination (\<open>None\<close> is
  \<open>INVALID_SOCKET\<close>); and whether \<open>SetI2pSocketOptions\<close> can make it non-blocking.
\<close>

record network =
  os_connect :: "CService \<Rightarrow> int \<Rightarrow> connect_script"
  i2p_connect :: "string \<Rightarrow> socket option"
  i2p_nonblock_ok :: bool

text \<open>
  The result is the new \<open>hSocketRet\<close>: \<open>None\<close> (\<open>INVALID_SOCKET\<close>) exactly when the
  function returns false.
\<close>

definition ConnectSocketDirectly :: "env \<Rightarrow> network \<Rightarrow> CService \<Rightarrow> int \<Rightarrow> socket option" where
  "ConnectSocketDirectly e net addrConnect nTimeout =
     (if \<not> GetSockAddr e (net_addr addrConnect) then None
      else
        (let cs = os_connect net addrConnect nTimeout in
         if \<not> socket_ok cs then None
         else if \<not> nonblock_ok cs then None
         else if connect_res cs = Connect_in_progress \<and>
                 (select_res cs = 0 \<or> select_res cs = - 1 \<or> \<not> getsockopt_ok cs \<or> so_error cs \<noteq> 0)
           then None
         else if connect_res cs = Connect_error then None
         else if \<not> block_ok cs then None
         else Some (stream cs)))"

definition SetI2pSocketOptions :: "network \<Rightarrow> socket option \<Rightarrow> bool \<times> socket option" where
  "SetI2pSocketOptions net hSocket =
     (if hSocket = None then (False, hSocket)
      else if \<not> i2p_nonblock_ok net then (False, None)
      else (True, hSocket))"

text \<open>
  The result is \<open>None\<close> when the assertion on an I2P destination fails and the program
  aborts, else the return value and the new \<open>hSocketRet\<close>.
\<close>

definition ConnectSocket :: "env \<Rightarrow> network \<Rightarrow> proxies \<Rightarrow> CService \<Rightarrow> socket option \<Rightarrow> int \<Rightarrow> (bool \<times> socket option) option" where
  "ConnectSocket e net px addrDest hSocketRet nTimeout =
     (if IsI2P (net_addr addrDest) then
        (if \<not> IsNativeI2P e (net_addr addrDest) then None
         else (let streamSocket = i2p_connect net (GetI2pDestination e (net_addr addrDest)) in
               case SetI2pSocketOptions net streamSocket of
                 (True, s) \<Rightarrow> Some (True, s)
               | (False, s) \<Rightarrow> Some (False, hSocketRet)))
      else
        (case GetProxy e px (GetNetwork e (net_addr addrDest)) of
           None \<Rightarrow>
             (case ConnectSocketDirectly e net addrDest nTimeout of
                None \<Rightarrow> Some (False, None)
              | Some s \<Rightarrow> Some (True, Some s))
         | Some proxy \<Rightarrow>
             (case ConnectSocketDirectly e net proxy nTimeout of
                None \<Rightarrow> Some (False, hSocketRet)
              | Some hSocket \<Rightarrow>
                  (case Socks5 (ToStringIP e (net_addr addrDest)) (uint (svc_port addrDest)) hSocket of
                     (Inl msg, s) \<Rightarrow> Some (False, hSocketRet)
                   | (Inr u, s) \<Rightarrow> Some (True, Some s)))))"

text \<open>
  The result is \<open>None\<close> when the program aborts in \<open>ConnectSocket\<close>, else the return
  value, the new \<open>addr\<close> and the new \<open>hSocketRet\<close>. \<open>CService("0.0.0.0:0")\<close> takes the
  default of its second parameter from the header, which is not among the sources; the
  numeric parse of this string does not depend on it.
\<close>

definition ConnectSocketByName :: "env \<Rightarrow> network \<Rightarrow> proxies \<Rightarrow> socket option \<Rightarrow> string \<Rightarrow> int \<Rightarrow> int \<Rightarrow> (bool \<times> CService \<times> socket option) option" where
  "ConnectSocketByName e net px hSocketRet pszDest portDefault nTimeout =
     (let (port, strDest) = SplitHostPort (c_str pszDest) portDefault;
          (fHave, nameProxy1) = GetNameProxy e px (CService_default e);
          addrResolved = CService_addr_port (CNetAddr_string e strDest (fNameLookup e \<and> \<not> HaveNameProxy e px)) port
      in if IsValid e (net_addr addrResolved) then
           (case ConnectSocket e net px addrResolved hSocketRet nTimeout of
              None \<Rightarrow> None
            | Some (fRet, h) \<Rightarrow> Some (fRet, addrResolved, h))
         else
           (let addr = CService_string e ''0.0.0.0:0'' 0 False in
            if \<not> HaveNameProxy e px then Some (False, addr, hSocketRet)
            else
              (case ConnectSocketDirectly e net nameProxy1 nTimeout of
                 None \<Rightarrow> Some (False, addr, hSocketRet)
               | Some hSocket \<Rightarrow>
                   (case Socks5 strDest (uint (word_of_int port :: 16 word)) hSocket of
                      (Inl msg, s) \<Rightarrow> Some (False, addr, hSocketRet)
                    | (Inr u, s) \<Rightarrow> Some (True, addr, Some s)))))"

subsection \<open>A concrete configuration\<close>

text \<open>
  One environment, used where a property is evaluated on concrete inputs: I2P is enabled
  with destinations of 516 characters, the address book and the I2P router know no name,
  and the resolver answers every host name when a lookup is allowed.
\<close>

definition test_env :: env where
  "test_env =
     \<lparr> NATIVE_I2P_DESTINATION_SIZE = 516,
       isStringI2pDestination =
         (\<lambda>s. drop (length s - 8) s = ''.b32.i2p'' \<or> (length s = 516 \<and> drop 512 s = ''AAAA'')),
       isValidI2pB32 = (\<lambda>s. drop (length s - 8) s = ''.b32.i2p''),
       isValidI2pAddress = (\<lambda>s. length s = 516 \<and> drop 512 s = ''AAAA''),
       B32AddressFromDestination = (\<lambda>s. ''destination.b32.i2p''),
       GetI2pBase64Destination = (\<lambda>s. []),
       namingLookup = (\<lambda>s. []),
       IsI2PEnabled = True,
       fNameLookup = True,
       mydestination = [],
       inet_pton6 = (\<lambda>s. None),
       getaddrinfo =
         (\<lambda>name allow. if allow then Some [\<lparr> ai_family = AF_INET, ai_addr = [93, 184, 216, 34] \<rparr>] else None),
       getnameinfo = (\<lambda>b. None) \<rparr>"

text \<open>A socket on which every call succeeds and the peer delivers \<open>bs\<close>.\<close>

definition socket_with :: "byte list \<Rightarrow> socket" where
  "socket_with bs = \<lparr> rx = bs, rx_script = [], tx_script = [], sent = [], closed = False \<rparr>"

text \<open>
  A name proxy at 127.0.0.1:9050 and no other proxy; a network where every connection
  attempt succeeds after waiting, and the peer is a SOCKS5 proxy that accepts the request.
\<close>

definition test_proxies :: proxies where
  "test_proxies =
     \<lparr> proxyInfo = (\<lambda>n. CService_default test_env),
       nameProxy = CService_addr_port (CNetAddr_in_addr test_env [127, 0, 0, 1]) 9050 \<rparr>"

definition test_network :: network where
  "test_network =
     \<lparr> os_connect = (\<lambda>addr timeout.
          \<lparr> socket_ok = True, nonblock_ok = True, connect_res = Connect_in_progress, select_res = 1,
            getsockopt_ok = True, so_error = 0, block_ok = True,
            stream = socket_with [0x05, 0x00, 0x05, 0x00, 0x00, 0x01, 10, 0, 0, 1, 0x24, 0xA1] \<rparr>),
       i2p_connect = (\<lambda>dest. None),
       i2p_nonblock_ok = True \<rparr>"

section \<open>Properties\<close>

subsection \<open>The SOCKS5 dialer\<close>

lemma socks5_reply_error_table:
  "socks5_reply_error 0x01 = ''Proxy error: general failure''
   \<and> socks5_reply_error 0x02 = ''Proxy error: connection not allowed''
   \<and> socks5_reply_error 0x03 = ''Proxy error: network unreachable''
   \<and> socks5_reply_error 0x04 = ''Proxy error: host unreachable''
   \<and> socks5_reply_error 0x05 = ''Proxy error: connection refused''
   \<and> socks5_reply_error 0x06 = ''Proxy error: TTL expired''
   \<and> socks5_reply_error 0x07 = ''Proxy error: protocol error''
   \<and> socks5_reply_error 0x08 = ''Proxy error: address type not supported''"
  by (simp add: socks5_reply_error_def)

lemma socks5_reply_error_unknown:
  "code \<notin> {0x01, 0x02, 0x03, 0x04, 0x05, 0x06, 0x07, 0x08} \<Longrightarrow>
   socks5_reply_error code = ''Proxy error: unknown''"
  by (simp add: socks5_reply_error_def)

text \<open>
  C1. Whenever the handshake gets as far as the four-byte reply header (the greeting is
  written in full, the proxy answers \<open>05 00\<close>, the request is written in full, and four
  header bytes \<open>05 code rsv atyp\<close> arrive) and the reply code is not zero, \<open>Socks5\<close>
  fails: it returns the error of the table for the codes 1 to 8 (general failure,
  connection not allowed, network unreachable, host unreachable, connection refused, TTL
  expired, protocol error, address type not supported) and "unknown" for every other
  code, and the socket it leaves behind is closed.
\<close>

theorem Socks5_reply_code_fails:
  assumes "length strDest \<le> 255"
    and "send hSocket [5, 1, 0] = (3, s1)"
    and "recv s1 2 = (2, [0x05, 0x00], s2)"
    and "send s2 (Socks5_request strDest port) = (int (length (Socks5_request strDest port)), s3)"
    and "recv s3 4 = (4, [0x05, code, rsv, atyp], s4)"
    and "code \<noteq> 0x00"
  shows "Socks5 strDest port hSocket = (Inl (socks5_reply_error code), closesocket s4)
     \<and> closed (snd (Socks5 strDest port hSocket))
     \<and> (code = 0x01 \<longrightarrow> fst (Socks5 strDest port hSocket) = Inl ''Proxy error: general failure'')
     \<and> (code = 0x02 \<longrightarrow> fst (Socks5 strDest port hSocket) = Inl ''Proxy error: connection not allowed'')
     \<and> (code = 0x03 \<longrightarrow> fst (Socks5 strDest port hSocket) = Inl ''Proxy error: network unreachable'')
     \<and> (code = 0x04 \<longrightarrow> fst (Socks5 strDest port hSocket) = Inl ''Proxy error: host unreachable'')
     \<and> (code = 0x05 \<longrightarrow> fst (Socks5 strDest port hSocket) = Inl ''Proxy error: connection refused'')
     \<and> (code = 0x06 \<longrightarrow> fst (Socks5 strDest port hSocket) = Inl ''Proxy error: TTL expired'')
     \<and> (code = 0x07 \<longrightarrow> fst (Socks5 strDest port hSocket) = Inl ''Proxy error: protocol error'')
     \<and> (code = 0x08 \<longrightarrow> fst (Socks5 strDest port hSocket) = Inl ''Proxy error: address type not supported'')
     \<and> (code \<notin> {0x01, 0x02, 0x03, 0x04, 0x05, 0x06, 0x07, 0x08} \<longrightarrow>
          fst (Socks5 strDest port hSocket) = Inl ''Proxy error: unknown'')"
proof -
  have run: "Socks5 strDest port hSocket = (Inl (socks5_reply_error code), closesocket s4)"
    using assms by (simp add: Socks5_def)
  have shut: "closed (closesocket s4)"
    by (simp add: closesocket_def)
  show ?thesis
    using socks5_reply_error_table socks5_reply_error_unknown [of code]
    by (simp add: run shut)
qed

text \<open>
  The reply \<open>05 04 00 01\<close> on a socket where every call succeeds: "host unreachable", and
  the socket is closed.
\<close>

theorem Socks5_reply_code_fails_witness:
  "Socks5 ''example.org'' 9377 (socket_with [0x05, 0x00, 0x05, 0x04, 0x00, 0x01, 0, 0, 0, 0, 0, 0])
     = (Inl ''Proxy error: host unreachable'',
        \<lparr> rx = [0, 0, 0, 0, 0, 0], rx_script = [], tx_script = [],
          sent = [5, 1, 0] @ Socks5_request ''example.org'' 9377, closed = True \<rparr>)"
proof -
  let ?h = "socket_with [0x05, 0x00, 0x05, 0x04, 0x00, 0x01, 0, 0, 0, 0, 0, 0]"
  let ?s1 = "?h \<lparr> sent := [5, 1, 0] \<rparr>"
  let ?s2 = "?s1 \<lparr> rx := [0x05, 0x04, 0x00, 0x01, 0, 0, 0, 0, 0, 0] \<rparr>"
  let ?s3 = "?s2 \<lparr> sent := [5, 1, 0] @ Socks5_request ''example.org'' 9377 \<rparr>"
  let ?s4 = "?s3 \<lparr> rx := [0, 0, 0, 0, 0, 0] \<rparr>"
  have len: "length ''example.org'' \<le> 255" by simp
  have a: "send ?h [5, 1, 0] = (3, ?s1)"
    by (simp add: send_def socket_with_def)
  have b: "recv ?s1 2 = (2, [0x05, 0x00], ?s2)"
    by (simp add: recv_def socket_with_def)
  have c: "send ?s2 (Socks5_request ''example.org'' 9377)
             = (int (length (Socks5_request ''example.org'' 9377)), ?s3)"
    by (simp add: send_def socket_with_def)
  have d: "recv ?s3 4 = (4, [0x05, 0x04, 0x00, 0x01], ?s4)"
    by (simp add: recv_def socket_with_def)
  have e: "(0x04 :: byte) \<noteq> 0x00" by simp
  from Socks5_reply_code_fails [OF len a b c d e]
  show ?thesis
    by (simp add: socks5_reply_error_def closesocket_def socket_with_def)
qed

text \<open>A reply header whose first byte is not 5 is refused before the reply code is read.\<close>

lemma Socks5_reply_bad_version:
  assumes "length strDest \<le> 255"
    and "send hSocket [5, 1, 0] = (3, s1)"
    and "recv s1 2 = (2, [0x05, 0x00], s2)"
    and "send s2 (Socks5_request strDest port) = (int (length (Socks5_request strDest port)), s3)"
    and "recv s3 4 = (4, [ver, code, rsv, atyp], s4)"
    and "ver \<noteq> 0x05"
  shows "Socks5 strDest port hSocket = (Inl ''Proxy failed to accept request'', closesocket s4)"
  using assms by (simp add: Socks5_def)

text \<open>
  C8. For a destination name of more than 255 bytes \<open>Socks5\<close> fails with "Hostname too
  long" and returns the socket closed and otherwise untouched: nothing was written to
  it, and no \<open>send\<close> or \<open>recv\<close> was made on it.
\<close>

theorem Socks5_hostname_too_long:
  assumes "length strDest > 255"
  shows "Socks5 strDest port hSocket = (Inl ''Hostname too long'', hSocket \<lparr> closed := True \<rparr>)
     \<and> sent (snd (Socks5 strDest port hSocket)) = sent hSocket
     \<and> tx_script (snd (Socks5 strDest port hSocket)) = tx_script hSocket
     \<and> rx_script (snd (Socks5 strDest port hSocket)) = rx_script hSocket
     \<and> closed (snd (Socks5 strDest port hSocket))"
  using assms by (simp add: Socks5_def closesocket_def)

theorem Socks5_hostname_too_long_witness:
  "Socks5 (replicate 256 CHR ''a'') 9377 (socket_with [0x05, 0x00])
     = (Inl ''Hostname too long'',
        \<lparr> rx = [0x05, 0x00], rx_script = [], tx_script = [], sent = [], closed = True \<rparr>)"
proof -
  have len: "length (replicate 256 CHR ''a'') > 255" by simp
  from Socks5_hostname_too_long [OF len, of 9377 "socket_with [0x05, 0x00]"]
  show ?thesis
    by (simp add: socket_with_def)
qed

subsection \<open>SplitHostPort\<close>

lemmas split_defs = SplitHostPort_def find_last_of_def find_last_of_pos_def size_t_pred_def
  strtol_def isspace_def isdigit_def decimal_val_def digit_val_def clamp_long_def
  LONG_MAX_def LONG_MIN_def long_to_int_def at_nul_def

lemma SplitHostPort_examples:
  "SplitHostPort ''example.com:8080'' d = (8080, ''example.com'')
   \<and> SplitHostPort ''[::1]:8080'' d = (8080, ''::1'')
   \<and> SplitHostPort ''::1'' d = (d, ''::1'')"
  by (simp add: split_defs Let_def)

lemma find_last_acc_None: "c \<notin> set s \<Longrightarrow> find_last_acc s c i acc = acc"
  by (induction s arbitrary: i acc) auto

lemma find_last_of_None: "c \<notin> set s \<Longrightarrow> find_last_of s c = None"
  by (simp add: find_last_of_def find_last_acc_None)

text \<open>A string without a colon and without an opening bracket in front is the host itself.\<close>

lemma SplitHostPort_plain:
  assumes "CHR '':'' \<notin> set s" and "s = [] \<or> hd s \<noteq> CHR ''[''"
  shows "SplitHostPort s d = (d, s)"
  using assms by (cases s) (auto simp add: SplitHostPort_def find_last_of_None)

lemma find_last_acc_mem: "c \<in> set s \<Longrightarrow> find_last_acc s c i acc \<noteq> None"
proof (induction s arbitrary: i acc)
  case Nil
  then show ?case by simp
next
  case (Cons x xs)
  show ?case
  proof (cases "c \<in> set xs")
    case True
    then show ?thesis by (simp add: Cons.IH)
  next
    case False
    with Cons.prems have "x = c" by simp
    with False show ?thesis by (simp add: find_last_acc_None)
  qed
qed

text \<open>
  With a colon before the last colon and no brackets around the part before the last
  colon, nothing is split off: the port is the default and the host is the whole string
  (without its brackets, if it has them).
\<close>

lemma SplitHostPort_not_separator:
  assumes "find_last_of s CHR '':'' = Some k"
    and "CHR '':'' \<in> set (take k s)"
    and "\<not> (s ! 0 = CHR ''['' \<and> s ! (k - 1) = CHR '']'')"
  shows "SplitHostPort s d =
           (if length s > 0 \<and> s ! 0 = CHR ''['' \<and> s ! (length s - 1) = CHR '']''
            then (d, take (length s - 2) (drop 1 s)) else (d, s))"
proof -
  from assms(2) have k: "k \<noteq> 0"
    by (cases k) simp_all
  then have "take (Suc (k - 1)) s = take k s"
    by simp
  with assms(2) have multi: "find_last_of_pos s CHR '':'' (size_t_pred k) \<noteq> None"
    using k by (simp add: find_last_of_pos_def size_t_pred_def find_last_of_def find_last_acc_mem)
  show ?thesis
    using assms(1,3) k multi by (auto simp add: SplitHostPort_def)
qed

text \<open>
  C4, at the input \<open>example.com:4294967297\<close> with the default port 9377: the number
  after the colon is outside 1..65535, \<open>strtol\<close> returns it as a 64-bit \<open>long\<close>, the
  assignment to the \<open>int n\<close> keeps its low 32 bits, which are 1, and the port becomes 1.
\<close>

theorem SplitHostPort_port_truncated:
  "SplitHostPort ''example.com:4294967297'' 9377 = (1, ''example.com'')"
  by (simp add: split_defs Let_def)

subsection \<open>Addresses\<close>

lemmas addr_defs = IsIPv4_def IsTor_def IsI2P_def IsIPv6_def memcmp_eq_def pchIPv4_def pchOnionCat_def
  pchGarlicCat_def GetByte_def IsRFC1918_def IsRFC3927_def IsRFC3849_def IsRFC3964_def IsRFC6052_def
  IsRFC4380_def IsRFC4862_def IsRFC4193_def IsRFC6145_def IsRFC4843_def IsLocal_def IsValid_def
  IsRoutable_def GetNetwork_def

lemmas lookup_defs = CNetAddr_string_def LookupHost_def LookupIntern_def SetSpecial_def c_str_def
  inet_pton4_def octet_def isdigit_def decimal_val_def digit_val_def CNetAddr_in_addr_def Init_def

lemma replicate_4: "replicate 4 x = [x, x, x, x]"
  by (simp add: eval_nat_numeral)

lemma parse_192_168_1_5:
  assumes "\<not> isStringI2pDestination e ''192.168.1.5''"
  shows "CNetAddr_string e ''192.168.1.5'' fAllowLookup
          = \<lparr> ip = [0, 0, 0, 0, 0, 0, 0, 0, 0, 0, 0xff, 0xff, 192, 168, 1, 5],
              i2pDest = replicate (NATIVE_I2P_DESTINATION_SIZE e) 0 \<rparr>"
  using assms by (simp add: lookup_defs pchIPv4_def)

text \<open>
  C2, as the code has it. In every environment where \<open>192.168.1.5\<close> is not taken for an
  I2P destination, the address parsed from it is the IPv4-mapped \<open>192.168.1.5\<close>: it is
  IPv4, its network is \<open>NET_IPV4\<close>, \<open>IsRFC1918\<close> holds, and \<open>IsRoutable\<close> holds too,
  since \<open>IsRoutable\<close> does not test \<open>IsRFC1918\<close>.
\<close>

theorem private_IPv4_parsed:
  assumes "\<not> isStringI2pDestination e ''192.168.1.5''"
  shows "ip (CNetAddr_string e ''192.168.1.5'' fAllowLookup) = pchIPv4 @ [192, 168, 1, 5]
     \<and> IsIPv4 (CNetAddr_string e ''192.168.1.5'' fAllowLookup)
     \<and> GetNetwork e (CNetAddr_string e ''192.168.1.5'' fAllowLookup) = NET_IPV4
     \<and> IsRFC1918 (CNetAddr_string e ''192.168.1.5'' fAllowLookup)
     \<and> IsRoutable e (CNetAddr_string e ''192.168.1.5'' fAllowLookup)"
  unfolding parse_192_168_1_5 [OF assms]
  by (simp add: addr_defs)

theorem private_IPv4_parsed_witness:
  "GetNetwork test_env (CNetAddr_string test_env ''192.168.1.5'' True) = NET_IPV4
   \<and> IsRFC1918 (CNetAddr_string test_env ''192.168.1.5'' True)
   \<and> IsRoutable test_env (CNetAddr_string test_env ''192.168.1.5'' True)"
proof -
  have h: "\<not> isStringI2pDestination test_env ''192.168.1.5''"
    by (simp add: test_env_def)
  from private_IPv4_parsed [OF h, of True] show ?thesis
    by simp
qed

text \<open>The claim C2 fails at its own input: the parsed address is private and routable.\<close>

theorem private_IPv4_is_routable:
  "IsRFC1918 (CNetAddr_string test_env ''192.168.1.5'' False)
   \<and> IsRoutable test_env (CNetAddr_string test_env ''192.168.1.5'' False)"
proof -
  have h: "\<not> isStringI2pDestination test_env ''192.168.1.5''"
    by (simp add: test_env_def)
  show ?thesis
    unfolding parse_192_168_1_5 [OF h]
    by (simp add: addr_defs)
qed

subsection \<open>Reachability\<close>

lemma memcmp_eq_nth0: "memcmp_eq p (q # qs) \<Longrightarrow> p ! 0 = q"
  by (cases p) (simp_all add: memcmp_eq_def)

lemma IsIPv4_byte0: "IsIPv4 a \<Longrightarrow> ip a ! 0 = 0"
  unfolding IsIPv4_def pchIPv4_def by (rule memcmp_eq_nth0)

lemma IsTor_byte0: "IsTor a \<Longrightarrow> ip a ! 0 = 0xFD"
  unfolding IsTor_def pchOnionCat_def by (rule memcmp_eq_nth0)

lemma IsRFC4380_byte0: "IsRFC4380 a \<Longrightarrow> ip a ! 0 = 0x20"
  by (simp add: IsRFC4380_def GetByte_def)

lemma IsIPv4_not_Teredo: "IsIPv4 a \<Longrightarrow> \<not> IsRFC4380 a"
  using IsIPv4_byte0 [of a] IsRFC4380_byte0 [of a] by auto

lemma IsTor_not_Teredo: "IsTor a \<Longrightarrow> \<not> IsRFC4380 a"
  using IsTor_byte0 [of a] IsRFC4380_byte0 [of a] by auto

lemma IsTor_not_IPv4: "IsTor a \<Longrightarrow> \<not> IsIPv4 a"
  using IsTor_byte0 [of a] IsIPv4_byte0 [of a] by auto

lemma GetNetwork_IPv4: "GetNetwork e a = NET_IPV4 \<Longrightarrow> IsIPv4 a \<and> IsRoutable e a"
  by (simp add: GetNetwork_def split: if_splits)

lemma GetNetwork_Tor: "GetNetwork e a = NET_TOR \<Longrightarrow> IsTor a \<and> IsRoutable e a"
  by (simp add: GetNetwork_def split: if_splits)

text \<open>An IPv4 partner, routable or not, gets the IPv4 score from a routable IPv4 address.\<close>

lemma reach_IPv4_IPv4:
  assumes "IsRoutable e a" and "IsIPv4 a" and "IsIPv4 p"
  shows "GetReachabilityFrom e a (Some p) = REACH_IPV4"
  using assms IsIPv4_not_Teredo [of a] IsIPv4_not_Teredo [of p]
  by (simp add: GetReachabilityFrom_def GetExtNetwork_def GetNetwork_def)

lemma reach_Tor_Tor:
  assumes "IsRoutable e a" and "IsTor a" and "IsTor p"
  shows "GetReachabilityFrom e a (Some p) = REACH_PRIVATE"
  using assms IsTor_not_Teredo [of a] IsTor_not_Teredo [of p] IsTor_not_IPv4 [of a] IsTor_not_IPv4 [of p]
  by (simp add: GetReachabilityFrom_def GetExtNetwork_def GetNetwork_def)

text \<open>
  C6. For a routable address \<open>a\<close>: when the network of \<open>a\<close> and the network of the
  partner are both \<open>NET_IPV4\<close> the score is \<open>REACH_IPV4\<close> (the extended network of
  neither can be Teredo); when both are Tor addresses the score is \<open>REACH_PRIVATE\<close>. For
  an address that is not routable the score is \<open>REACH_UNREACHABLE\<close> for every partner,
  the null pointer included.
\<close>

theorem reachability_IPv4_Tor_unroutable:
  "(IsRoutable e a \<and> GetNetwork e a = NET_IPV4 \<and> GetNetwork e p = NET_IPV4 \<longrightarrow>
      GetReachabilityFrom e a (Some p) = REACH_IPV4)
   \<and> (IsRoutable e a \<and> IsTor a \<and> IsTor p \<longrightarrow> GetReachabilityFrom e a (Some p) = REACH_PRIVATE)
   \<and> (IsRoutable e a \<and> GetNetwork e a = NET_TOR \<and> GetNetwork e p = NET_TOR \<longrightarrow>
      GetReachabilityFrom e a (Some p) = REACH_PRIVATE)
   \<and> (\<not> IsRoutable e a \<longrightarrow> GetReachabilityFrom e a partner = REACH_UNREACHABLE)"
proof -
  have unroutable: "\<not> IsRoutable e a \<longrightarrow> GetReachabilityFrom e a partner = REACH_UNREACHABLE"
    by (simp add: GetReachabilityFrom_def)
  show ?thesis
    using reach_IPv4_IPv4 [of e a p] reach_Tor_Tor [of e a p] GetNetwork_IPv4 [of e a]
      GetNetwork_IPv4 [of e p] GetNetwork_Tor [of e a] GetNetwork_Tor [of e p] unroutable
    by blast
qed

theorem reachability_IPv4_Tor_unroutable_witness:
  "GetReachabilityFrom test_env (CNetAddr_in_addr test_env [8, 8, 8, 8])
     (Some (CNetAddr_in_addr test_env [1, 1, 1, 1])) = REACH_IPV4
   \<and> GetReachabilityFrom test_env \<lparr> ip = pchOnionCat @ [1, 2, 3, 4, 5, 6, 7, 8, 9, 10], i2pDest = replicate 516 0 \<rparr>
     (Some \<lparr> ip = pchOnionCat @ [10, 9, 8, 7, 6, 5, 4, 3, 2, 1], i2pDest = replicate 516 0 \<rparr>) = REACH_PRIVATE
   \<and> GetReachabilityFrom test_env (CNetAddr_in_addr test_env [127, 0, 0, 1]) None = REACH_UNREACHABLE"
proof -
  let ?a = "CNetAddr_in_addr test_env [8, 8, 8, 8]"
  let ?p = "CNetAddr_in_addr test_env [1, 1, 1, 1]"
  let ?t = "\<lparr> ip = pchOnionCat @ [1, 2, 3, 4, 5, 6, 7, 8, 9, 10], i2pDest = replicate 516 0 \<rparr>"
  let ?u = "\<lparr> ip = pchOnionCat @ [10, 9, 8, 7, 6, 5, 4, 3, 2, 1], i2pDest = replicate 516 0 \<rparr>"
  let ?l = "CNetAddr_in_addr test_env [127, 0, 0, 1]"
  have a: "IsRoutable test_env ?a \<and> GetNetwork test_env ?a = NET_IPV4 \<and> GetNetwork test_env ?p = NET_IPV4"
    by (simp add: CNetAddr_in_addr_def addr_defs)
  have t: "IsRoutable test_env ?t \<and> IsTor ?t \<and> IsTor ?u"
    by (simp add: addr_defs)
  have l: "\<not> IsRoutable test_env ?l"
    by (simp add: CNetAddr_in_addr_def addr_defs)
  from reachability_IPv4_Tor_unroutable [of test_env ?a ?p] a
  have 1: "GetReachabilityFrom test_env ?a (Some ?p) = REACH_IPV4" by blast
  from reachability_IPv4_Tor_unroutable [of test_env ?t ?u] t
  have 2: "GetReachabilityFrom test_env ?t (Some ?u) = REACH_PRIVATE" by blast
  from reachability_IPv4_Tor_unroutable [of test_env ?l _ None] l
  have 3: "GetReachabilityFrom test_env ?l None = REACH_UNREACHABLE" by blast
  from 1 2 3 show ?thesis by blast
qed

text \<open>
  C3, as the code has it. For a routable address, a pair of extended networks that has
  no \<open>case\<close> label of its own scores \<open>REACH_DEFAULT\<close>, except under a partner of network
  \<open>NET_NATIVE_I2P\<close>, where the \<open>default\<close> label returns \<open>REACH_UNREACHABLE\<close>.
\<close>

theorem reachability_default_label:
  assumes "IsRoutable e a"
    and "\<not> has_case_label (GetExtNetwork e (Some a)) (GetExtNetwork e partner)"
  shows "GetReachabilityFrom e a partner
          = (if GetExtNetwork e partner = Net NET_NATIVE_I2P then REACH_UNREACHABLE else REACH_DEFAULT)"
  using assms
  by (simp add: GetReachabilityFrom_def has_case_label_def Let_def split: ExtNetwork.splits Network.splits)

text \<open>A Tor address and an IPv4 partner: no label, \<open>REACH_DEFAULT\<close>.\<close>

theorem reachability_default_label_witness:
  "GetReachabilityFrom test_env \<lparr> ip = pchOnionCat @ [1, 2, 3, 4, 5, 6, 7, 8, 9, 10], i2pDest = replicate 516 0 \<rparr>
     (Some (CNetAddr_in_addr test_env [8, 8, 8, 8])) = REACH_DEFAULT"
proof -
  let ?t = "\<lparr> ip = pchOnionCat @ [1, 2, 3, 4, 5, 6, 7, 8, 9, 10], i2pDest = replicate 516 0 \<rparr>"
  let ?p = "Some (CNetAddr_in_addr test_env [8, 8, 8, 8])"
  have r: "IsRoutable test_env ?t"
    by (simp add: addr_defs)
  have ours: "GetExtNetwork test_env (Some ?t) = Net NET_TOR"
    by (simp add: GetExtNetwork_def addr_defs)
  have theirs: "GetExtNetwork test_env ?p = Net NET_IPV4"
    by (simp add: GetExtNetwork_def CNetAddr_in_addr_def addr_defs)
  have n: "\<not> has_case_label (GetExtNetwork test_env (Some ?t)) (GetExtNetwork test_env ?p)"
    by (simp add: ours theirs has_case_label_def)
  from reachability_default_label [OF r n] show ?thesis
    by (simp add: theirs)
qed

text \<open>
  The claim C3 fails for a routable IPv4 address and a native I2P partner: the pair has no
  label of its own, and the score is \<open>REACH_UNREACHABLE\<close>, not \<open>REACH_DEFAULT\<close>.
\<close>

theorem reachability_I2P_partner_unreachable:
  "IsRoutable test_env (CNetAddr_in_addr test_env [8, 8, 8, 8])
   \<and> GetExtNetwork test_env (Some (CNetAddr_in_addr test_env [8, 8, 8, 8])) = Net NET_IPV4
   \<and> GetExtNetwork test_env
        (Some \<lparr> ip = pchGarlicCat @ [0, 0, 0, 0, 0, 0, 0, 0, 0, 0], i2pDest = replicate 516 0x41 \<rparr>)
        = Net NET_NATIVE_I2P
   \<and> \<not> has_case_label (Net NET_IPV4) (Net NET_NATIVE_I2P)
   \<and> GetReachabilityFrom test_env (CNetAddr_in_addr test_env [8, 8, 8, 8])
        (Some \<lparr> ip = pchGarlicCat @ [0, 0, 0, 0, 0, 0, 0, 0, 0, 0], i2pDest = replicate 516 0x41 \<rparr>)
        = REACH_UNREACHABLE
   \<and> REACH_UNREACHABLE \<noteq> REACH_DEFAULT"
  by (simp add: CNetAddr_in_addr_def GetReachabilityFrom_def GetExtNetwork_def has_case_label_def addr_defs
      IsNativeI2P_def GetI2pDestination_def byte_of_char_def test_env_def replicate_4)

subsection \<open>Groups\<close>

lemma take4_nth: "4 \<le> length xs \<Longrightarrow> take 4 xs = [xs ! 0, xs ! 1, xs ! 2, xs ! 3]"
  by (auto simp add: numeral_eq_Suc Suc_le_length_iff)

lemma group_bits_32: "group_bits a 0 32 = [ip a ! 0, ip a ! 1, ip a ! 2, ip a ! 3]"
  by (simp add: GetByte_def)

lemma GetGroup_other_IPv6:
  assumes "other_IPv6 e a"
  shows "GetGroup e a = Network_value NET_IPV6 # take 4 (ip a)"
proof -
  from assms have len: "4 \<le> length (ip a)"
    by (simp add: other_IPv6_def)
  from assms have "\<not> IsLocal e a"
    by (auto simp add: other_IPv6_def IsRoutable_def)
  moreover from assms
  have "(GetByte a 15 = 0x20 \<and> GetByte a 14 = 0x01 \<and> GetByte a 13 = 0x04 \<and> GetByte a 12 = 0x70) = False"
    by (simp add: other_IPv6_def)
  moreover from assms
  have "\<not> IsI2P a" "\<not> IsIPv4 a" "\<not> IsTor a" "IsRoutable e a" "\<not> IsRFC6145 a" "\<not> IsRFC6052 a"
    "\<not> IsRFC3964 a" "\<not> IsRFC4380 a"
    by (simp_all add: other_IPv6_def IsIPv6_def)
  ultimately show ?thesis
    unfolding GetGroup_def take4_nth [OF len]
    by (auto simp add: group_bits_32 simp del: group_bits.simps)
qed

text \<open>
  C7, as the code has it. Two addresses of the rest of the IPv6 network (routable IPv6,
  not an IPv4 translation, not 6to4, not Teredo, not in 2001:470::/32) have the same
  group when their first four bytes agree, and different groups when they do not.
\<close>

theorem GetGroup_prefix_32:
  assumes "other_IPv6 e a" and "other_IPv6 e b"
  shows "(take 4 (ip a) = take 4 (ip b) \<longrightarrow> GetGroup e a = GetGroup e b)
       \<and> (take 4 (ip a) \<noteq> take 4 (ip b) \<longrightarrow> GetGroup e a \<noteq> GetGroup e b)"
  by (simp add: GetGroup_other_IPv6 [OF assms(1)] GetGroup_other_IPv6 [OF assms(2)])

text \<open>2a00:1450:4001::1 and 2a00:1450:4002::5 share their /32 and their group.\<close>

theorem GetGroup_prefix_32_witness:
  "GetGroup test_env (CNetAddr_in6_addr test_env [0x2a, 0x00, 0x14, 0x50, 0x40, 0x01, 0, 0, 0, 0, 0, 0, 0, 0, 0, 1])
   = GetGroup test_env (CNetAddr_in6_addr test_env [0x2a, 0x00, 0x14, 0x50, 0x40, 0x02, 0, 0, 0, 0, 0, 0, 0, 0, 0, 5])"
proof -
  let ?a = "CNetAddr_in6_addr test_env [0x2a, 0x00, 0x14, 0x50, 0x40, 0x01, 0, 0, 0, 0, 0, 0, 0, 0, 0, 1]"
  let ?b = "CNetAddr_in6_addr test_env [0x2a, 0x00, 0x14, 0x50, 0x40, 0x02, 0, 0, 0, 0, 0, 0, 0, 0, 0, 5]"
  have a: "other_IPv6 test_env ?a"
    by (simp add: other_IPv6_def CNetAddr_in6_addr_def addr_defs)
  have b: "other_IPv6 test_env ?b"
    by (simp add: other_IPv6_def CNetAddr_in6_addr_def addr_defs)
  from GetGroup_prefix_32 [OF a b] show ?thesis
    by (simp add: CNetAddr_in6_addr_def)
qed

text \<open>
  The claim C7 fails in both directions. 2001:470::1 and 2001:470:1000::1 are IPv6
  addresses with the same first 32 bits and different groups (the /36 groups of
  2001:470::/32); fe80::1 and fc00::1 are IPv6 addresses with different first 32 bits
  and the same group (neither is routable).
\<close>

theorem GetGroup_not_by_prefix_32:
  "IsIPv6 (CNetAddr_in6_addr test_env [0x20, 0x01, 0x04, 0x70, 0x00, 0, 0, 0, 0, 0, 0, 0, 0, 0, 0, 1])
   \<and> IsIPv6 (CNetAddr_in6_addr test_env [0x20, 0x01, 0x04, 0x70, 0x10, 0, 0, 0, 0, 0, 0, 0, 0, 0, 0, 1])
   \<and> GetGroup test_env (CNetAddr_in6_addr test_env [0x20, 0x01, 0x04, 0x70, 0x00, 0, 0, 0, 0, 0, 0, 0, 0, 0, 0, 1])
       = [2, 0x20, 0x01, 0x04, 0x70, 0x0F]
   \<and> GetGroup test_env (CNetAddr_in6_addr test_env [0x20, 0x01, 0x04, 0x70, 0x10, 0, 0, 0, 0, 0, 0, 0, 0, 0, 0, 1])
       = [2, 0x20, 0x01, 0x04, 0x70, 0x1F]
   \<and> IsIPv6 (CNetAddr_in6_addr test_env [0xFE, 0x80, 0, 0, 0, 0, 0, 0, 0, 0, 0, 0, 0, 0, 0, 1])
   \<and> IsIPv6 (CNetAddr_in6_addr test_env [0xFC, 0x00, 0, 0, 0, 0, 0, 0, 0, 0, 0, 0, 0, 0, 0, 1])
   \<and> GetGroup test_env (CNetAddr_in6_addr test_env [0xFE, 0x80, 0, 0, 0, 0, 0, 0, 0, 0, 0, 0, 0, 0, 0, 1])
       = [0]
   \<and> GetGroup test_env (CNetAddr_in6_addr test_env [0xFC, 0x00, 0, 0, 0, 0, 0, 0, 0, 0, 0, 0, 0, 0, 0, 1])
       = [0]"
  by (simp add: CNetAddr_in6_addr_def GetGroup_def addr_defs Network_value_def test_env_def)

subsection \<open>Lookup\<close>

lemma c_str_id: "CHR 0x00 \<notin> set s \<Longrightarrow> c_str s = s"
  unfolding c_str_def by (rule takeWhile_eq_all_conv [THEN iffD2]) auto

lemma c_str_Nil: "c_str [] = []"
  by (simp add: c_str_def)

text \<open>When \<open>SetSpecial\<close> fails on a string that has the syntax of an I2P destination.\<close>

lemma SetSpecial_I2P_fails:
  assumes "isStringI2pDestination e s"
  shows "fst (SetSpecial e a s) \<longleftrightarrow>
           \<not> (isValidI2pB32 e s \<and>
               (\<not> IsI2PEnabled e \<or> \<not> fNameLookup e \<or>
                \<not> isValidI2pAddress e (if GetI2pBase64Destination e s = [] then namingLookup e s
                                           else GetI2pBase64Destination e s)))"
  using assms by (auto simp add: SetSpecial_def Let_def)

lemma LookupIntern_I2P:
  assumes "isStringI2pDestination e (c_str name)" and "\<not> fst (SetSpecial e (Init e) (c_str name))"
  shows "LookupIntern e name n allow = (False, [], [])"
  using assms by (cases "SetSpecial e (Init e) (c_str name)") (simp add: LookupIntern_def Let_def)

text \<open>
  C9. \<open>LookupHost\<close> and \<open>Lookup\<close> return false on the empty string, without a call to
  the resolver. \<open>LookupIntern\<close> returns false with an empty vector and without a call to
  \<open>inet_pton\<close> or \<open>getaddrinfo\<close> for every name that has the syntax of an I2P
  destination and on which \<open>SetSpecial\<close> fails; so do \<open>LookupHost\<close> and \<open>Lookup\<close> when
  the name reaches \<open>LookupIntern\<close> as it is (no NUL, no colon, no opening bracket in
  front). Each result is a value of the function: no exception is involved.
\<close>

theorem Lookup_fails_before_resolver:
  "LookupHost e [] vIP nMaxSolutions fAllowLookup = (False, vIP, [])
   \<and> Lookup e [] vAddr portDefault fAllowLookup nMaxSolutions = (False, vAddr, [])
   \<and> (isStringI2pDestination e (c_str name) \<and> \<not> fst (SetSpecial e (Init e) (c_str name)) \<longrightarrow>
        LookupIntern e name nMaxSolutions fAllowLookup = (False, [], []))
   \<and> (name \<noteq> [] \<and> CHR 0x00 \<notin> set name \<and> CHR '':'' \<notin> set name \<and> hd name \<noteq> CHR ''[''
        \<and> isStringI2pDestination e name \<and> \<not> fst (SetSpecial e (Init e) name) \<longrightarrow>
        LookupHost e name vIP nMaxSolutions fAllowLookup = (False, [], [])
        \<and> Lookup e name vAddr portDefault fAllowLookup nMaxSolutions = (False, vAddr, []))"
proof -
  have 1: "LookupHost e [] vIP nMaxSolutions fAllowLookup = (False, vIP, [])"
    by (simp add: LookupHost_def c_str_Nil)
  have 2: "Lookup e [] vAddr portDefault fAllowLookup nMaxSolutions = (False, vAddr, [])"
    by (simp add: Lookup_def c_str_Nil)
  have 3: "LookupHost e name vIP nMaxSolutions fAllowLookup = (False, [], [])
        \<and> Lookup e name vAddr portDefault fAllowLookup nMaxSolutions = (False, vAddr, [])"
    if h: "name \<noteq> []" "CHR 0x00 \<notin> set name" "CHR '':'' \<notin> set name" "hd name \<noteq> CHR ''[''"
      "isStringI2pDestination e name" "\<not> fst (SetSpecial e (Init e) name)"
  proof -
    have c: "c_str name = name"
      using h(2) by (rule c_str_id)
    have i: "LookupIntern e name n allow = (False, [], [])" for n allow
      using h(5,6) by (intro LookupIntern_I2P) (simp_all add: c)
    have s: "SplitHostPort name portDefault = (portDefault, name)"
      using h(3,4) by (intro SplitHostPort_plain) simp_all
    show ?thesis
      using h(1,4) by (simp add: LookupHost_def Lookup_def c s i)
  qed
  show ?thesis
    using 1 2 3 LookupIntern_I2P [of e name nMaxSolutions fAllowLookup] by blast
qed

text \<open>
  A base32 I2P name that neither the address book nor the router knows, in an environment
  whose resolver would answer for it.
\<close>

theorem Lookup_fails_before_resolver_witness:
  "Lookup test_env ''abcdef.b32.i2p'' [] 9377 True 1 = (False, [], [])
   \<and> LookupHost test_env ''abcdef.b32.i2p'' [] 1 True = (False, [], [])
   \<and> getaddrinfo test_env ''abcdef.b32.i2p'' True \<noteq> None"
proof -
  have h: "''abcdef.b32.i2p'' \<noteq> [] \<and> CHR 0x00 \<notin> set ''abcdef.b32.i2p'' \<and> CHR '':'' \<notin> set ''abcdef.b32.i2p''
        \<and> hd ''abcdef.b32.i2p'' \<noteq> CHR ''[''
        \<and> isStringI2pDestination test_env ''abcdef.b32.i2p''
        \<and> \<not> fst (SetSpecial test_env (Init test_env) ''abcdef.b32.i2p'')"
    by (simp add: test_env_def SetSpecial_def)
  from Lookup_fails_before_resolver [of test_env "[]" 1 True "[]" 9377 "''abcdef.b32.i2p''"] h
  have "LookupHost test_env ''abcdef.b32.i2p'' [] 1 True = (False, [], [])
        \<and> Lookup test_env ''abcdef.b32.i2p'' [] 9377 True 1 = (False, [], [])"
    by blast
  then show ?thesis
    by (simp add: test_env_def)
qed

subsection \<open>ConnectSocketByName\<close>

lemma SplitHostPort_zero: "SplitHostPort ''0.0.0.0:0'' 0 = (0, ''0.0.0.0'')"
  by (simp add: split_defs Let_def)

lemma LookupIntern_zero:
  assumes "\<not> isStringI2pDestination e ''0.0.0.0''"
  shows "LookupIntern e ''0.0.0.0'' n allow
          = (True, [CNetAddr_in_addr e [0, 0, 0, 0]], [Call_inet_pton AF_INET ''0.0.0.0''])"
  using assms
  by (simp add: LookupIntern_def SetSpecial_def c_str_def inet_pton4_def octet_def isdigit_def
      decimal_val_def digit_val_def)

text \<open>\<open>CService("0.0.0.0:0")\<close> is the IPv4-mapped address 0.0.0.0 with port 0.\<close>

lemma CService_zero:
  assumes "\<not> isStringI2pDestination e ''0.0.0.0''"
  shows "CService_string e ''0.0.0.0:0'' 0 False
          = \<lparr> net_addr = \<lparr> ip = pchIPv4 @ [0, 0, 0, 0], i2pDest = replicate (NATIVE_I2P_DESTINATION_SIZE e) 0 \<rparr>,
              svc_port = 0 \<rparr>"
proof -
  have c: "c_str ''0.0.0.0:0'' = ''0.0.0.0:0''"
    by (simp add: c_str_def)
  show ?thesis
    by (simp add: CService_string_def Lookup1_def Lookup_def c SplitHostPort_zero LookupIntern_zero [OF assms]
        CService_addr_port_def CNetAddr_in_addr_def)
qed

text \<open>
  C10. When the address resolved locally from the host part of \<open>pszDest\<close> is not valid,
  \<open>ConnectSocketByName\<close> returns (it does not abort), and whatever it returns, its
  \<open>addr\<close> is the endpoint 0.0.0.0 with port 0: the assignment comes before the test for
  a name proxy. In particular, when a name proxy is set, the connection to it succeeds and
  \<open>Socks5\<close> succeeds on that socket, the function returns true with that socket and
  with the zero endpoint as \<open>addr\<close>. (The environment must not take the string
  \<open>0.0.0.0\<close> for an I2P destination.)
\<close>

theorem ConnectSocketByName_zero_endpoint:
  assumes "\<not> IsValid e (CNetAddr_string e (snd (SplitHostPort (c_str pszDest) portDefault))
                           (fNameLookup e \<and> \<not> HaveNameProxy e px))"
    and "\<not> isStringI2pDestination e ''0.0.0.0''"
  shows "(\<exists>fRet h. ConnectSocketByName e net px hSocketRet pszDest portDefault nTimeout
            = Some (fRet,
                    \<lparr> net_addr = \<lparr> ip = pchIPv4 @ [0, 0, 0, 0],
                                   i2pDest = replicate (NATIVE_I2P_DESTINATION_SIZE e) 0 \<rparr>,
                      svc_port = 0 \<rparr>, h))
     \<and> (HaveNameProxy e px
        \<and> ConnectSocketDirectly e net (nameProxy px) nTimeout = Some hSocket
        \<and> Socks5 (snd (SplitHostPort (c_str pszDest) portDefault))
             (uint (word_of_int (fst (SplitHostPort (c_str pszDest) portDefault)) :: 16 word)) hSocket
            = (Inr (), s) \<longrightarrow>
        ConnectSocketByName e net px hSocketRet pszDest portDefault nTimeout
            = Some (True,
                    \<lparr> net_addr = \<lparr> ip = pchIPv4 @ [0, 0, 0, 0],
                                   i2pDest = replicate (NATIVE_I2P_DESTINATION_SIZE e) 0 \<rparr>,
                      svc_port = 0 \<rparr>, Some s))"
proof (cases "SplitHostPort (c_str pszDest) portDefault")
  case (Pair port strDest)
  with assms(1) have inv: "\<not> IsValid e (CNetAddr_string e strDest (fNameLookup e \<and> \<not> HaveNameProxy e px))"
    by simp
  show ?thesis
    using inv
    by (auto simp add: ConnectSocketByName_def Pair CService_zero [OF assms(2)] CService_addr_port_def
        GetNameProxy_def HaveNameProxy_def Let_def split: option.splits sum.splits prod.splits)
qed

text \<open>
  The name \<open>example.org\<close> with a name proxy set: no lookup is allowed, the name does not
  parse as a number, and the proxy accepts the request. The caller gets true, the
  socket, and 0.0.0.0:0.
\<close>

theorem ConnectSocketByName_zero_endpoint_witness:
  "ConnectSocketByName test_env test_network test_proxies None ''example.org:9377'' 9377 5000
    = Some (True,
            \<lparr> net_addr = \<lparr> ip = pchIPv4 @ [0, 0, 0, 0], i2pDest = replicate 516 0 \<rparr>, svc_port = 0 \<rparr>,
            Some \<lparr> rx = [], rx_script = [], tx_script = [],
                   sent = [5, 1, 0] @ Socks5_request ''example.org'' 9377, closed = False \<rparr>)"
proof -
  have sp: "SplitHostPort (c_str ''example.org:9377'') 9377 = (9377, ''example.org'')"
    by (simp add: c_str_def split_defs Let_def)
  have np: "HaveNameProxy test_env test_proxies"
    by (simp add: HaveNameProxy_def test_proxies_def CService_addr_port_def CNetAddr_in_addr_def addr_defs)
  have res: "CNetAddr_string test_env ''example.org'' False = Init test_env"
    by (simp add: CNetAddr_string_def LookupHost_def LookupIntern_def SetSpecial_def c_str_def
      inet_pton4_def octet_def isdigit_def test_env_def Let_def)
  have a: "\<not> IsValid test_env (CNetAddr_string test_env (snd (SplitHostPort (c_str ''example.org:9377'') 9377))
                           (fNameLookup test_env \<and> \<not> HaveNameProxy test_env test_proxies))"
    by (simp add: sp np res) (simp add: Init_def addr_defs)
  have b: "\<not> isStringI2pDestination test_env ''0.0.0.0''"
    by (simp add: test_env_def)
  have c: "ConnectSocketDirectly test_env test_network (nameProxy test_proxies) 5000
            = Some (socket_with [0x05, 0x00, 0x05, 0x00, 0x00, 0x01, 10, 0, 0, 1, 0x24, 0xA1])"
    by (simp add: ConnectSocketDirectly_def test_network_def test_proxies_def GetSockAddr_def
        CService_addr_port_def CNetAddr_in_addr_def addr_defs)
  have d: "Socks5 (snd (SplitHostPort (c_str ''example.org:9377'') 9377))
             (uint (word_of_int (fst (SplitHostPort (c_str ''example.org:9377'') 9377)) :: 16 word))
             (socket_with [0x05, 0x00, 0x05, 0x00, 0x00, 0x01, 10, 0, 0, 1, 0x24, 0xA1])
            = (Inr (), \<lparr> rx = [], rx_script = [], tx_script = [],
                   sent = [5, 1, 0] @ Socks5_request ''example.org'' 9377, closed = False \<rparr>)"
    by (simp add: sp Socks5_def Socks5_bound_def send_def recv_def socket_with_def Socks5_request_def)
  from ConnectSocketByName_zero_endpoint [OF a b, of test_network None 5000] np c d
  show ?thesis
    by (simp add: test_env_def)
qed

subsection \<open>Onion addresses\<close>

lemma index_of_Some:
  "c \<in> set xs \<Longrightarrow> \<exists>i. index_of c xs = Some i \<and> i < length xs \<and> xs ! i = c"
  by (induction xs) auto

lemma index_of_None_iff: "index_of c xs = None \<longleftrightarrow> c \<notin> set xs"
  by (induction xs) auto

lemma length_bits_of: "length (bits_of n v) = n"
  by (induction n arbitrary: v) auto

lemma nat_of_bits_snoc: "nat_of_bits (bs @ [b]) = 2 * nat_of_bits bs + (if b then 1 else 0)"
  by (simp add: nat_of_bits_def)

lemma nat_of_bits_Nil: "nat_of_bits [] = 0"
  by (simp add: nat_of_bits_def)

lemma nat_of_bits_of: "nat_of_bits (bits_of n v) = v mod 2 ^ n"
proof (induction n arbitrary: v)
  case 0
  show ?case by (simp add: nat_of_bits_Nil)
next
  case (Suc n)
  have "nat_of_bits (bits_of (Suc n) v) = 2 * ((v div 2) mod 2 ^ n) + v mod 2"
    by (simp add: nat_of_bits_snoc Suc.IH odd_iff_mod_2_eq_one)
  also have "\<dots> = v mod 2 ^ Suc n"
    by (simp add: mod_mult2_eq)
  finally show ?case .
qed

lemma bits_of_nat: "bits_of (length bs) (nat_of_bits bs) = bs"
proof (induction bs rule: rev_induct)
  case Nil
  show ?case by simp
next
  case (snoc b bs)
  then show ?case by (simp add: nat_of_bits_snoc)
qed

lemma nat_of_bits_less: "nat_of_bits bs < 2 ^ length bs"
proof (induction bs rule: rev_induct)
  case Nil
  show ?case by (simp add: nat_of_bits_Nil)
next
  case (snoc b bs)
  then show ?case by (simp add: nat_of_bits_snoc)
qed

lemma chunks_Nil: "chunks n [] = []"
  by (simp add: chunks.simps)

lemma chunks_step: "0 < n \<Longrightarrow> xs \<noteq> [] \<Longrightarrow> chunks n xs = take n xs # chunks n (drop n xs)"
  by (subst chunks.simps) simp

lemma chunks_append:
  assumes "0 < n" and "length x = n"
  shows "chunks n (x @ xs) = x # chunks n xs"
proof -
  from assms have "x @ xs \<noteq> []"
    by auto
  from chunks_step [OF assms(1) this] assms(2) show ?thesis
    by simp
qed

lemma chunks_concat:
  assumes "0 < n" and "\<And>x. x \<in> set xss \<Longrightarrow> length x = n"
  shows "chunks n (concat xss) = xss"
  using assms(2)
proof (induction xss)
  case Nil
  show ?case by (simp add: chunks_Nil)
next
  case (Cons x xss)
  have "length x = n"
    by (rule Cons.prems) simp
  moreover have "chunks n (concat xss) = xss"
    by (rule Cons.IH) (rule Cons.prems, simp)
  ultimately show ?case
    by (simp add: chunks_append [OF assms(1)])
qed

lemma concat_chunks: "0 < n \<Longrightarrow> concat (chunks n xs) = xs"
proof (induction n xs rule: chunks.induct)
  case (1 n xs)
  show ?case
  proof (cases "xs = []")
    case True
    then show ?thesis by (simp add: chunks_Nil)
  next
    case False
    with 1(2) have "concat (chunks n (drop n xs)) = drop n xs"
      by (intro 1(1)) simp_all
    then show ?thesis
      by (simp add: chunks_step [OF 1(2) False])
  qed
qed

lemma chunks_lengths:
  "0 < n \<Longrightarrow> n dvd length xs \<Longrightarrow> g \<in> set (chunks n xs) \<Longrightarrow> length g = n"
proof (induction n xs rule: chunks.induct)
  case (1 n xs)
  show ?case
  proof (cases "xs = []")
    case True
    with 1(4) show ?thesis by (simp add: chunks_Nil)
  next
    case False
    with 1(3) have le: "n \<le> length xs"
      by (simp add: dvd_imp_le)
    from 1(3) le have d: "n dvd length (drop n xs)"
      by (simp add: dvd_diff_nat)
    from 1(2) False have c: "\<not> (n = 0 \<or> xs = [])"
      by simp
    from 1(4) have "g = take n xs \<or> g \<in> set (chunks n (drop n xs))"
      by (simp add: chunks_step [OF 1(2) False])
    then show ?thesis
    proof
      assume "g = take n xs"
      with le show ?thesis by simp
    next
      assume "g \<in> set (chunks n (drop n xs))"
      then show ?thesis by (rule 1(1) [OF c 1(2) d])
    qed
  qed
qed

lemma length_chunks:
  "0 < n \<Longrightarrow> length xs = k * n \<Longrightarrow> length (chunks n xs) = k"
proof (induction k arbitrary: xs)
  case 0
  then show ?case by (simp add: chunks_Nil)
next
  case (Suc k)
  from Suc.prems have ne: "xs \<noteq> []"
    by auto
  from Suc.prems have "length (drop n xs) = k * n"
    by simp
  with Suc.prems(1) have "length (chunks n (drop n xs)) = k"
    by (rule Suc.IH)
  then show ?case
    by (simp add: chunks_step [OF Suc.prems(1) ne])
qed

lemma pbase32_index:
  assumes "c \<in> set pbase32"
  shows "the (index_of c pbase32) < 32 \<and> pbase32 ! the (index_of c pbase32) = c"
proof -
  from index_of_Some [OF assms] obtain i
    where "index_of c pbase32 = Some i" "i < length pbase32" "pbase32 ! i = c"
    by blast
  moreover have "length pbase32 = 32"
    by (simp add: pbase32_def)
  ultimately show ?thesis by simp
qed

lemma takeWhile_base32: "set s \<subseteq> set pbase32 \<Longrightarrow> takeWhile (\<lambda>c. index_of c pbase32 \<noteq> None) s = s"
  by (rule takeWhile_eq_all_conv [THEN iffD2]) (auto simp add: index_of_None_iff)

lemma length_base32_bits: "length (base32_bits s) = 5 * length s"
  by (induction s) (simp_all add: base32_bits_def length_bits_of)

lemma filter_chunks_8:
  assumes "8 dvd length bs"
  shows "filter (\<lambda>g. length g = 8) (chunks 8 bs) = chunks 8 bs"
proof -
  have "length g = 8" if "g \<in> set (chunks 8 bs)" for g
    using that assms by (intro chunks_lengths [of 8 bs g]) simp_all
  then show ?thesis
    by (intro filter_True) blast
qed

lemma DecodeBase32_bits:
  assumes "set s \<subseteq> set pbase32" and "8 dvd 5 * length s"
  shows "DecodeBase32 s = map (\<lambda>g. word_of_nat (nat_of_bits g)) (chunks 8 (base32_bits s))"
proof -
  have "filter (\<lambda>g. length g = 8) (chunks 8 (base32_bits s)) = chunks 8 (base32_bits s)"
    using assms(2) by (intro filter_chunks_8) (simp add: length_base32_bits)
  then show ?thesis
    unfolding DecodeBase32_def Let_def takeWhile_base32 [OF assms(1)] base32_bits_def [symmetric]
    by simp
qed

lemma bits_of_decoded:
  assumes "length g = 8"
  shows "bits_of 8 (unat (word_of_nat (nat_of_bits g) :: byte)) = g"
proof -
  have "nat_of_bits g < 2 ^ 8"
    using nat_of_bits_less [of g] assms by simp
  then have "unat (word_of_nat (nat_of_bits g) :: byte) = nat_of_bits g"
    by (simp add: unat_of_nat)
  with bits_of_nat [of g] assms show ?thesis
    by simp
qed

lemma Encode_Decode:
  assumes "set s \<subseteq> set pbase32" and "length s = 16"
  shows "EncodeBase32 (DecodeBase32 s) = s" and "length (DecodeBase32 s) = 10"
proof -
  have dvd: "8 dvd 5 * length s"
    using assms(2) by simp
  have len8: "length g = 8" if "g \<in> set (chunks 8 (base32_bits s))" for g
    using that dvd by (intro chunks_lengths [of 8 "base32_bits s" g]) (simp_all add: length_base32_bits)
  have dec: "DecodeBase32 s = map (\<lambda>g. word_of_nat (nat_of_bits g)) (chunks 8 (base32_bits s))"
    by (rule DecodeBase32_bits [OF assms(1) dvd])
  show len: "length (DecodeBase32 s) = 10"
    unfolding dec using assms(2)
    by (simp add: length_chunks [where k = 10] length_base32_bits)
  have "map (\<lambda>g. bits_of 8 (unat (word_of_nat (nat_of_bits g) :: byte))) (chunks 8 (base32_bits s))
          = map (\<lambda>g. g) (chunks 8 (base32_bits s))"
    by (rule map_cong [OF refl]) (rule bits_of_decoded, rule len8)
  then have "concat (map (\<lambda>b. bits_of 8 (unat b)) (DecodeBase32 s)) = concat (chunks 8 (base32_bits s))"
    by (simp add: dec map_map comp_def)
  then have bits: "concat (map (\<lambda>b. bits_of 8 (unat b)) (DecodeBase32 s)) = base32_bits s"
    by (simp add: concat_chunks)
  have ch: "chunks 5 (base32_bits s) = map (bits_of 5) (map (\<lambda>c. the (index_of c pbase32)) s)"
    unfolding base32_bits_def by (rule chunks_concat) (auto simp add: length_bits_of)
  have "map (\<lambda>g. pbase32 ! nat_of_bits (g @ replicate (5 - length g) False)) (chunks 5 (base32_bits s))
          = map (\<lambda>c. pbase32 ! (the (index_of c pbase32) mod 2 ^ 5)) s"
    by (simp add: ch map_map comp_def length_bits_of nat_of_bits_of)
  also have "\<dots> = map (\<lambda>c. c) s"
  proof (rule map_cong [OF refl])
    fix c assume "c \<in> set s"
    with assms(1) have "c \<in> set pbase32"
      by blast
    from pbase32_index [OF this] show "pbase32 ! (the (index_of c pbase32) mod 2 ^ 5) = c"
      by simp
  qed
  finally show "EncodeBase32 (DecodeBase32 s) = s"
    by (simp add: EncodeBase32_def bits len base32_padding_def)
qed

lemma SetSpecial_onion:
  assumes "length s = 16" and "set s \<subseteq> set pbase32" and "\<not> isStringI2pDestination e (s @ ''.onion'')"
  shows "SetSpecial e (Init e) (s @ ''.onion'')
          = (True, \<lparr> ip = pchOnionCat @ DecodeBase32 s, i2pDest = replicate (NATIVE_I2P_DESTINATION_SIZE e) 0 \<rparr>)"
proof -
  have nul: "CHR 0x00 \<notin> set s"
    using assms(2) by (auto simp add: pbase32_def)
  have len: "length (DecodeBase32 s) = 10"
    by (rule Encode_Decode(2) [OF assms(2,1)])
  show ?thesis
    using assms(1,3)
    by (simp add: SetSpecial_def c_str_id [OF nul] len pchOnionCat_def store_at_def Init_def)
qed

lemma CNetAddr_string_onion:
  assumes "length s = 16" and "set s \<subseteq> set pbase32" and "\<not> isStringI2pDestination e (s @ ''.onion'')"
  shows "CNetAddr_string e (s @ ''.onion'') fAllowLookup
          = \<lparr> ip = pchOnionCat @ DecodeBase32 s, i2pDest = replicate (NATIVE_I2P_DESTINATION_SIZE e) 0 \<rparr>"
proof -
  have nul: "CHR 0x00 \<notin> set (s @ ''.onion'')"
    using assms(2) by (auto simp add: pbase32_def)
  have c: "c_str (s @ ''.onion'') = s @ ''.onion''"
    by (rule c_str_id [OF nul])
  show ?thesis
    by (simp add: CNetAddr_string_def LookupHost_def LookupIntern_def c SetSpecial_onion [OF assms])
qed

text \<open>
  C5. For every text \<open>s\<close> of 16 characters of the base32 alphabet, in every environment
  that does not take \<open>s.onion\<close> for an I2P destination: \<open>s\<close> decodes to exactly 10
  bytes; the address constructed from \<open>s.onion\<close> has the 6 bytes of \<open>pchOnionCat\<close>
  followed by these 10 bytes in \<open>ip\<close>, so \<open>IsTor\<close> holds; and \<open>ToStringIP\<close> of that
  address is \<open>s.onion\<close> again.
\<close>

theorem onion_round_trip:
  assumes "length s = 16" and "set s \<subseteq> set pbase32" and "\<not> isStringI2pDestination e (s @ ''.onion'')"
  shows "length (DecodeBase32 s) = 10
     \<and> ip (CNetAddr_string e (s @ ''.onion'') fAllowLookup) = pchOnionCat @ DecodeBase32 s
     \<and> IsTor (CNetAddr_string e (s @ ''.onion'') fAllowLookup)
     \<and> ToStringIP e (CNetAddr_string e (s @ ''.onion'') fAllowLookup) = s @ ''.onion''"
proof -
  have len: "length (DecodeBase32 s) = 10"
    by (rule Encode_Decode(2) [OF assms(2,1)])
  have enc: "EncodeBase32 (DecodeBase32 s) = s"
    by (rule Encode_Decode(1) [OF assms(2,1)])
  show ?thesis
    unfolding CNetAddr_string_onion [OF assms]
    by (simp add: len enc ToStringIP_def IsTor_def IsI2P_def memcmp_eq_def pchOnionCat_def pchGarlicCat_def)
qed

theorem onion_round_trip_witness:
  "ToStringIP test_env (CNetAddr_string test_env ''abcdefghijklmnop.onion'' False) = ''abcdefghijklmnop.onion''
   \<and> ip (CNetAddr_string test_env ''abcdefghijklmnop.onion'' False)
       = pchOnionCat @ [0x00, 0x44, 0x32, 0x14, 0xC7, 0x42, 0x54, 0xB6, 0x35, 0xCF]"
proof -
  have a: "length ''abcdefghijklmnop'' = 16"
    by simp
  have b: "set ''abcdefghijklmnop'' \<subseteq> set pbase32"
    by (simp add: pbase32_def)
  have c: "\<not> isStringI2pDestination test_env (''abcdefghijklmnop'' @ ''.onion'')"
    by (simp add: test_env_def)
  have d: "DecodeBase32 ''abcdefghijklmnop'' = [0x00, 0x44, 0x32, 0x14, 0xC7, 0x42, 0x54, 0xB6, 0x35, 0xCF]"
    by code_simp
  from onion_round_trip [OF a b c, of False] show ?thesis
    by (simp add: d)
qed

end
